theory Spec2Isabelle
  imports Main "HOL-Library.Sublist" "HOL-Library.AList"
begin

section \<open>Texts\<close>

text \<open>
  JavaScript strings are modelled as \<^typ>\<open>string\<close>, one \<^typ>\<open>char\<close> per code unit; every
  pattern of the program is ASCII, and only code units below 256 are represented.
\<close>

definition code :: "char \<Rightarrow> nat" where
  "code c = of_char c"

definition is_lower :: "char \<Rightarrow> bool" where
  "is_lower c = (97 \<le> code c \<and> code c \<le> 122)"

definition is_upper :: "char \<Rightarrow> bool" where
  "is_upper c = (65 \<le> code c \<and> code c \<le> 90)"

definition is_digit :: "char \<Rightarrow> bool" where
  "is_digit c = (48 \<le> code c \<and> code c \<le> 57)"

definition toLowerCase_char :: "char \<Rightarrow> char" where
  "toLowerCase_char c =
     (case map_of (zip ''ABCDEFGHIJKLMNOPQRSTUVWXYZ'' ''abcdefghijklmnopqrstuvwxyz'') c of
        Some l \<Rightarrow> l
      | None \<Rightarrow> c)"

definition toLowerCase :: "string \<Rightarrow> string" where
  "toLowerCase s = map toLowerCase_char s"

text \<open>\<open>hay.includes(needle)\<close>: the needle occurs somewhere in the text.\<close>

fun str_includes :: "string \<Rightarrow> string \<Rightarrow> bool" where
  "str_includes [] needle = (needle = [])"
| "str_includes (c # cs) needle = (prefix needle (c # cs) \<or> str_includes cs needle)"

section \<open>Network table\<close>

record Currency =
  currency_name :: string
  symbol :: string
  decimals :: nat

record NetworkConfig =
  network_name :: string
  chainId :: nat
  rpcUrl :: string
  explorer :: string
  nativeCurrency :: Currency

definition mainnet :: NetworkConfig where
  "mainnet = \<lparr> network_name = ''Rootstock Mainnet'', chainId = 30,
     rpcUrl = ''https://public-node.rsk.co'', explorer = ''https://explorer.rsk.co'',
     nativeCurrency = \<lparr> currency_name = ''Smart Bitcoin'', symbol = ''RBTC'', decimals = 18 \<rparr> \<rparr>"

definition testnet :: NetworkConfig where
  "testnet = \<lparr> network_name = ''Rootstock Testnet'', chainId = 31,
     rpcUrl = ''https://public-node.testnet.rsk.co'', explorer = ''https://explorer.testnet.rsk.co'',
     nativeCurrency = \<lparr> currency_name = ''Test Smart Bitcoin'', symbol = ''tRBTC'', decimals = 18 \<rparr> \<rparr>"

text \<open>The object literal \<open>ROOTSTOCK_NETWORKS\<close>: its own properties, in source order.\<close>

definition ROOTSTOCK_NETWORKS :: "(string \<times> NetworkConfig) list" where
  "ROOTSTOCK_NETWORKS = [(''mainnet'', mainnet), (''testnet'', testnet)]"

text \<open>
  The object literal inherits from \<open>Object.prototype\<close>; a property read that finds no own
  property finds these members before it yields \<open>undefined\<close>.
\<close>

definition object_prototype_members :: "string list" where
  "object_prototype_members =
     [''constructor'', ''__proto__'', ''hasOwnProperty'', ''isPrototypeOf'',
      ''propertyIsEnumerable'', ''toLocaleString'', ''toString'', ''valueOf'',
      ''__defineGetter__'', ''__defineSetter__'', ''__lookupGetter__'', ''__lookupSetter__'']"

datatype 'a property_read = Own 'a | Inherited string | Undefined

definition get_property :: "(string \<times> 'a) list \<Rightarrow> string \<Rightarrow> 'a property_read" where
  "get_property obj key =
     (case map_of obj key of
        Some v \<Rightarrow> Own v
      | None \<Rightarrow> if key \<in> set object_prototype_members then Inherited key else Undefined)"

text \<open>Everything the program (or the specification) names as a failure.\<close>

datatype error =
    DirectoryExists string
  | NotAProject
  | NoToolchainDetected
  | UnknownNetwork
  | IOError
  | JSONSyntaxError
  | TypeError
  | SubprocessFailure string
  | PromptUnanswered

text \<open>
  \<open>getNetworkConfig(network)\<close> is the plain property read \<open>ROOTSTOCK_NETWORKS[network]\<close>. The
  parameter type \<open>'mainnet' | 'testnet'\<close> is erased at run time, so the model takes any
  string; the function has no \<open>throw\<close>, so it is always a return (\<open>Inr\<close>).
\<close>

definition getNetworkConfig :: "string \<Rightarrow> error + NetworkConfig property_read" where
  "getNetworkConfig network = Inr (get_property ROOTSTOCK_NETWORKS network)"

section \<open>Project name validation\<close>

text \<open>
  The result object of the dependency \<open>validate-npm-package-name\<close>: \<open>errors\<close> and
  \<open>warnings\<close> are absent (\<open>None\<close>) when the library found none.
\<close>

record npm_result =
  validForNewPackages :: bool
  npm_errors :: "string list option"
  npm_warnings :: "string list option"

type_synonym npm_validator = "string \<Rightarrow> npm_result"

record ValidationResult =
  valid :: bool
  errors :: "string list"

definition length_message :: string where
  "length_message = ''Project name must be 214 characters or less''"

definition charset_message :: string where
  "charset_message =
     ''Project name can only contain lowercase letters, numbers, hyphens, dots, and underscores''"

text \<open>The character class \<open>[a-z0-9-._]\<close>.\<close>

definition name_char :: "char \<Rightarrow> bool" where
  "name_char c = (is_lower c \<or> is_digit c \<or> c = CHR ''-'' \<or> c = CHR ''.'' \<or> c = CHR ''_'')"

text \<open>\<open>/^[a-z0-9-._]+$/.test(name)\<close>\<close>

definition charset_test :: "string \<Rightarrow> bool" where
  "charset_test name = (name \<noteq> [] \<and> list_all name_char name)"

definition present :: "string list option \<Rightarrow> string list" where
  "present xs = (case xs of None \<Rightarrow> [] | Some ys \<Rightarrow> ys)"

text \<open>The library is a parameter: \<open>validateNpmPackageName\<close> is the imported function.\<close>

definition validateProjectName :: "npm_validator \<Rightarrow> string \<Rightarrow> ValidationResult" where
  "validateProjectName validateNpmPackageName name =
     (let result = validateNpmPackageName name in
      if \<not> validForNewPackages result then
        \<lparr> valid = False, errors = present (npm_errors result) @ present (npm_warnings result) \<rparr>
      else if length name > 214 then
        \<lparr> valid = False, errors = [length_message] \<rparr>
      else if \<not> charset_test name then
        \<lparr> valid = False, errors = [charset_message] \<rparr>
      else
        \<lparr> valid = True, errors = [] \<rparr>)"

subsection \<open>The rules as the specification words them\<close>

text \<open>
  One entry per rule, in the specification's order: \<open>None\<close> when the rule holds, the
  rule's messages when it is violated.
\<close>

definition rule_violations :: "npm_validator \<Rightarrow> string \<Rightarrow> string list option list" where
  "rule_violations v name =
     [if validForNewPackages (v name) then None
      else Some (present (npm_errors (v name)) @ present (npm_warnings (v name))),
      if length name \<le> 214 then None else Some [length_message],
      if charset_test name then None else Some [charset_message]]"

text \<open>Every violation collected, as the specification has it.\<close>

definition validate_accumulating :: "npm_validator \<Rightarrow> string \<Rightarrow> ValidationResult" where
  "validate_accumulating v name =
     \<lparr> valid = list_all (\<lambda>r. r = None) (rule_violations v name),
       errors = concat (map present (rule_violations v name)) \<rparr>"

text \<open>Only the first violated rule reported.\<close>

fun first_violation :: "string list option list \<Rightarrow> ValidationResult" where
  "first_violation [] = \<lparr> valid = True, errors = [] \<rparr>"
| "first_violation (None # rs) = first_violation rs"
| "first_violation (Some ms # rs) = \<lparr> valid = False, errors = ms \<rparr>"

text \<open>
  One rule of the library, enough to run the validator on a name with a capital letter:
  such a name is not valid for new packages and carries one warning.
\<close>

definition npm_capital_rule :: npm_validator where
  "npm_capital_rule name =
     (if toLowerCase name \<noteq> name
      then \<lparr> validForNewPackages = False, npm_errors = None,
             npm_warnings = Some [''name can no longer contain capital letters''] \<rparr>
      else \<lparr> validForNewPackages = True, npm_errors = None, npm_warnings = None \<rparr>)"

section \<open>File system, processes and failures\<close>

text \<open>
  A path is its list of components below the root; the file system maps a path to the
  node found there. The root itself is a directory and has no entry.
\<close>

type_synonym path = "string list"

datatype node = Dir | File string

type_synonym filesystem = "path \<Rightarrow> node option"

text \<open>\<open>s.split(c)\<close>\<close>

fun split_at :: "char \<Rightarrow> string \<Rightarrow> string list" where
  "split_at c [] = [[]]"
| "split_at c (x # xs) =
     (if x = c then [] # split_at c xs
      else case split_at c xs of w # ws \<Rightarrow> (x # w) # ws | [] \<Rightarrow> [[x]])"

text \<open>\<open>path.join\<close> on an absolute first argument: empty and \<open>.\<close> segments vanish, \<open>..\<close> steps up.\<close>

definition path_step :: "path \<Rightarrow> string \<Rightarrow> path" where
  "path_step p seg =
     (if seg = [] \<or> seg = ''.'' then p else if seg = ''..'' then butlast p else p @ [seg])"

definition path_join :: "path \<Rightarrow> string \<Rightarrow> path" where
  "path_join p rel = foldl path_step p (split_at CHR ''/'' rel)"

text \<open>\<open>path.basename\<close>\<close>

definition basename :: "path \<Rightarrow> string" where
  "basename p = (if p = [] then [] else last p)"

datatype json =
    JNull | JBool bool | JNum int | JStr string | JArr "json list" | JObj "(string \<times> json) list"

text \<open>
  The template texts that no property below reads: contract, script, test and frontend
  sources. They are written to disk as they are, so they are carried as opaque texts
  under the names of the source's constants.
\<close>

record template_literals =
  sampleContract :: string
  deployScript :: string
  testFile :: string
  viteConfig :: string
  indexHtml :: string
  mainJsx :: string
  appJsx :: string
  appCss :: string
  indexCss :: string

text \<open>
  What the program meets outside itself. \<open>fault_at n\<close> says that the \<open>n\<close>-th file
  operation of the run fails with an I/O error (full disk, permissions); \<open>exec\<close> is the
  behaviour of \<open>execSync\<close>: the command and its working directory give an exit (\<open>Inl\<close> a
  failure with its message, \<open>Inr\<close> the captured output) and whatever the command did to
  the file system;
  \<open>JSON_parse\<close> and \<open>JSON_stringify\<close> are the reading and the two-space writing of
  \<open>fs-extra\<close>; \<open>dirname\<close> is \<open>__dirname\<close>, \<open>cwd\<close> is \<open>process.cwd()\<close>; \<open>answers\<close> are
  the lines the user types at a prompt; \<open>partial_copy\<close> says which entries of a tree copy
  were already written when the copy failed.
\<close>

record environment =
  fault_at :: "nat \<Rightarrow> bool"
  exec :: "string \<Rightarrow> path \<Rightarrow> filesystem \<Rightarrow> (string + string) \<times> filesystem"
  JSON_parse :: "string \<Rightarrow> json option"
  JSON_stringify :: "json \<Rightarrow> string"
  dirname :: path
  cwd :: path
  answers :: "string list"
  partial_copy :: "path \<Rightarrow> bool"
  hardhat_literals :: template_literals
  foundry_literals :: template_literals

text \<open>
  The state of a run: the file system, the number of file operations made so far, and
  the commands handed to \<open>execSync\<close> so far.
\<close>

record state =
  files :: filesystem
  ticks :: nat
  commands :: "string list"

text \<open>An \<open>async\<close> function: it ends in an error or a value, and leaves a state either way.\<close>

type_synonym 'a action = "state \<Rightarrow> (error + 'a) \<times> state"

definition return :: "'a \<Rightarrow> 'a action" where
  "return x s = (Inr x, s)"

definition throw :: "error \<Rightarrow> 'a action" where
  "throw e s = (Inl e, s)"

definition and_then :: "'a action \<Rightarrow> ('a \<Rightarrow> 'b action) \<Rightarrow> 'b action" where
  "and_then m f s = (case m s of (Inl e, s') \<Rightarrow> (Inl e, s') | (Inr x, s') \<Rightarrow> f x s')"

definition seq :: "unit action \<Rightarrow> 'b action \<Rightarrow> 'b action" where
  "seq m n = and_then m (\<lambda>_. n)"

text \<open>\<open>try { m } catch (error) { }\<close> with a handler that only reports.\<close>

definition try_warn :: "unit action \<Rightarrow> unit action" where
  "try_warn m s = (case m s of (Inl e, s') \<Rightarrow> (Inr (), s') | (Inr x, s') \<Rightarrow> (Inr (), s'))"

subsection \<open>The operations of \<open>fs-extra\<close>\<close>

definition parent_is_dir :: "filesystem \<Rightarrow> path \<Rightarrow> bool" where
  "parent_is_dir fs p = (butlast p = [] \<or> fs (butlast p) = Some Dir)"

definition is_file :: "node option \<Rightarrow> bool" where
  "is_file n = (case n of Some (File c) \<Rightarrow> True | _ \<Rightarrow> False)"

text \<open>\<open>ensureDir\<close> creates the directory and every missing ancestor; a file in the way fails it.\<close>

definition ensureDir_fs :: "path \<Rightarrow> filesystem \<Rightarrow> error + unit \<times> filesystem" where
  "ensureDir_fs p fs =
     (if list_ex (\<lambda>q. is_file (fs q)) (prefixes p) then Inl IOError
      else Inr ((), \<lambda>q. if q \<noteq> [] \<and> prefix q p then Some Dir else fs q))"

text \<open>\<open>writeFile\<close> replaces a file or creates it in an existing directory.\<close>

definition writeFile_fs :: "path \<Rightarrow> string \<Rightarrow> filesystem \<Rightarrow> error + unit \<times> filesystem" where
  "writeFile_fs p content fs =
     (case fs p of
        Some (File old) \<Rightarrow> Inr ((), fs(p \<mapsto> File content))
      | Some Dir \<Rightarrow> Inl IOError
      | None \<Rightarrow> if p \<noteq> [] \<and> parent_is_dir fs p then Inr ((), fs(p \<mapsto> File content))
                else Inl IOError)"


definition readFile_fs :: "path \<Rightarrow> filesystem \<Rightarrow> error + string \<times> filesystem" where
  "readFile_fs p fs = (case fs p of Some (File content) \<Rightarrow> Inr (content, fs) | _ \<Rightarrow> Inl IOError)"

text \<open>
  \<open>remove\<close> deletes the entry and everything below it; a missing entry is no error. The
  clean-up is taken to succeed: no fault is injected into it.
\<close>

definition remove_fs :: "path \<Rightarrow> filesystem \<Rightarrow> filesystem" where
  "remove_fs p fs = (\<lambda>q. if prefix p q then None else fs q)"

text \<open>One file operation: it counts, and it fails where the environment says so.\<close>

definition io :: "environment \<Rightarrow> (filesystem \<Rightarrow> error + 'a \<times> filesystem) \<Rightarrow> 'a action" where
  "io E f s =
     (let s1 = s\<lparr>ticks := Suc (ticks s)\<rparr> in
      if fault_at E (ticks s) then (Inl IOError, s1)
      else case f (files s) of
             Inl e \<Rightarrow> (Inl e, s1)
           | Inr (x, fs') \<Rightarrow> (Inr x, s1\<lparr>files := fs'\<rparr>))"

definition pathExists :: "path \<Rightarrow> bool action" where
  "pathExists p s = (Inr (p = [] \<or> files s p \<noteq> None), s)"

definition ensureDir :: "environment \<Rightarrow> path \<Rightarrow> unit action" where
  "ensureDir E p = io E (ensureDir_fs p)"

definition writeFile :: "environment \<Rightarrow> path \<Rightarrow> string \<Rightarrow> unit action" where
  "writeFile E p content = io E (writeFile_fs p content)"


definition readFile :: "environment \<Rightarrow> path \<Rightarrow> string action" where
  "readFile E p = io E (readFile_fs p)"

definition writeJson :: "environment \<Rightarrow> path \<Rightarrow> json \<Rightarrow> unit action" where
  "writeJson E p obj = writeFile E p (JSON_stringify E obj)"

definition readJson :: "environment \<Rightarrow> path \<Rightarrow> json action" where
  "readJson E p =
     and_then (readFile E p)
       (\<lambda>text. case JSON_parse E text of None \<Rightarrow> throw JSONSyntaxError | Some obj \<Rightarrow> return obj)"

definition remove :: "path \<Rightarrow> unit action" where
  "remove p s = (Inr (), s\<lparr>files := remove_fs p (files s)\<rparr>)"

text \<open>\<open>execSync(command, {cwd})\<close>: a failing command throws.\<close>

definition execSync :: "environment \<Rightarrow> string \<Rightarrow> path \<Rightarrow> string action" where
  "execSync E command dir s =
     (case exec E command dir (files s) of
        (Inl message, fs') \<Rightarrow>
          (Inl (SubprocessFailure message), s\<lparr>files := fs', commands := commands s @ [command]\<rparr>)
      | (Inr output, fs') \<Rightarrow>
          (Inr output, s\<lparr>files := fs', commands := commands s @ [command]\<rparr>))"

definition execSync_ignore :: "environment \<Rightarrow> string \<Rightarrow> path \<Rightarrow> unit action" where
  "execSync_ignore E command dir = and_then (execSync E command dir) (\<lambda>_. return ())"

text \<open>\<open>for (const x of xs) await f(x)\<close>\<close>

fun for_each :: "'a list \<Rightarrow> ('a \<Rightarrow> unit action) \<Rightarrow> unit action" where
  "for_each [] f = return ()"
| "for_each (x # xs) f = seq (f x) (for_each xs f)"

section \<open>Project creation\<close>

subsection \<open>Template literals\<close>

definition unlines :: "string list \<Rightarrow> string" where
  "unlines ls = concat (map (\<lambda>l. l @ ''\<newline>'') ls)"

fun join_lines :: "string list \<Rightarrow> string" where
  "join_lines [] = []"
| "join_lines [l] = l"
| "join_lines (l # ls) = l @ ''\<newline>'' @ join_lines ls"

definition hardhatConfig_lines :: "string list" where
  \<open>hardhatConfig_lines =
     [''require("@nomicfoundation/hardhat-toolbox");'',
      ''require("dotenv").config();'',
      [],
      ''/** @type import('hardhat/config').HardhatUserConfig */'',
      ''module.exports = {'',
      ''  solidity: {'',
      ''    version: "0.8.19",'',
      ''    settings: {'',
      ''      optimizer: {'',
      ''        enabled: true,'',
      ''        runs: 200'',
      ''      }'',
      ''    }'',
      ''  },'',
      ''  networks: {'',
      ''    hardhat: {'',
      ''      chainId: 31337'',
      ''    },'',
      ''    rsktestnet: {'',
      ''      url: process.env.RSK_TESTNET_RPC_URL || "https://public-node.testnet.rsk.co",'',
      ''      chainId: 31,'',
      ''      gasPrice: 60000000,'',
      ''      accounts: process.env.PRIVATE_KEY ? [process.env.PRIVATE_KEY] : []'',
      ''    },'',
      ''    rskmainnet: {'',
      ''      url: process.env.RSK_MAINNET_RPC_URL || "https://public-node.rsk.co",'',
      ''      chainId: 30,'',
      ''      gasPrice: 60000000,'',
      ''      accounts: process.env.PRIVATE_KEY ? [process.env.PRIVATE_KEY] : []'',
      ''    }'',
      ''  },'',
      ''  paths: {'',
      ''    sources: "./contracts",'',
      ''    tests: "./test",'',
      ''    cache: "./cache",'',
      ''    artifacts: "./artifacts"'',
      ''  }'',
      ''};'']\<close>

definition hardhatConfig :: string where
  "hardhatConfig = join_lines hardhatConfig_lines"

definition foundryToml_lines :: "string list" where
  \<open>foundryToml_lines =
     [''[profile.default]'',
      ''src = "src"'',
      ''out = "out"'',
      ''libs = ["lib"]'',
      ''solc = "0.8.19"'',
      ''optimizer = true'',
      ''optimizer_runs = 200'',
      [],
      ''[rpc_endpoints]'',
      ''rsktestnet = "${RSK_TESTNET_RPC_URL}"'',
      ''rskmainnet = "${RSK_MAINNET_RPC_URL}"'',
      [],
      ''[etherscan]'',
      ''rsktestnet = { key = "${ETHERSCAN_API_KEY}" }'',
      ''rskmainnet = { key = "${ETHERSCAN_API_KEY}" }'']\<close>

definition foundryToml :: string where
  "foundryToml = join_lines foundryToml_lines"

text \<open>The template literal \<open>envContent\<close>, line by line; each line ends in a newline.\<close>

definition envContent_lines :: "string list" where
  \<open>envContent_lines =
     [''# Rootstock Configuration'',
      ''# DO NOT COMMIT THIS FILE TO VERSION CONTROL'',
      [],
      ''# Private Keys (NEVER share these!)'',
      ''PRIVATE_KEY=your_private_key_here'',
      [],
      ''# Rootstock Testnet RPC URLs'',
      ''VITE_RSK_TESTNET_RPC_URL=https://public-node.testnet.rsk.co'',
      ''RSK_TESTNET_RPC_URL=https://public-node.testnet.rsk.co'',
      [],
      ''# Rootstock Mainnet RPC URLs (use with caution!)'',
      ''VITE_RSK_MAINNET_RPC_URL=https://public-node.rsk.co'',
      ''RSK_MAINNET_RPC_URL=https://public-node.rsk.co'',
      [],
      ''# Explorer URLs'',
      ''VITE_RSK_TESTNET_EXPLORER=https://explorer.testnet.rsk.co'',
      ''VITE_RSK_MAINNET_EXPLORER=https://explorer.rsk.co'',
      [],
      ''# Chain IDs'',
      ''VITE_RSK_TESTNET_CHAIN_ID=31'',
      ''VITE_RSK_MAINNET_CHAIN_ID=30'',
      [],
      ''# Contract Addresses (will be populated after deployment)'',
      ''VITE_CONTRACT_ADDRESS='']\<close>

definition envContent :: string where
  "envContent = unlines envContent_lines"

definition gitignoreContent :: string where
  \<open>gitignoreContent =
     unlines
     [''# Dependencies'',
      ''node_modules/'',
      ''.pnp'',
      ''.pnp.js'',
      [],
      ''# Testing'',
      ''coverage/'',
      ''*.lcov'',
      [],
      ''# Production'',
      ''build/'',
      ''dist/'',
      ''out/'',
      [],
      ''# Environment files'',
      ''.env'',
      ''.env.local'',
      ''.env.development.local'',
      ''.env.test.local'',
      ''.env.production.local'',
      [],
      ''# Debug'',
      ''npm-debug.log*'',
      ''yarn-debug.log*'',
      ''yarn-error.log*'',
      ''pnpm-debug.log*'',
      ''lerna-debug.log*'',
      [],
      ''# Editor directories and files'',
      ''.vscode/*'',
      ''!.vscode/extensions.json'',
      ''.idea'',
      ''.DS_Store'',
      ''*.suo'',
      ''*.ntvs*'',
      ''*.njsproj'',
      ''*.sln'',
      ''*.sw?'',
      [],
      ''# Hardhat files'',
      ''cache/'',
      ''artifacts/'',
      ''typechain/'',
      ''typechain-types/'',
      [],
      ''# Foundry files'',
      ''cache_forge/'',
      ''out_forge/'',
      [],
      ''# Deployment files'',
      ''deployments/'',
      ''.openzeppelin/'',
      [],
      ''# Misc'',
      ''*.log'',
      ''.cache'']\<close>

definition hardhat_rootPackageJson :: json where
  \<open>hardhat_rootPackageJson =
     JObj [(''name'', JStr ''rsk-dapp''),
           (''version'', JStr ''0.1.0''),
           (''private'', JBool True),
           (''scripts'', JObj
             [(''dev'', JStr ''concurrently "npm run dev:hardhat" "npm run dev:frontend"''),
              (''dev:hardhat'', JStr ''hardhat node''),
              (''dev:frontend'', JStr ''cd frontend && npm run dev''),
              (''build'', JStr ''npm run compile && cd frontend && npm run build''),
              (''compile'', JStr ''hardhat compile''),
              (''test'', JStr ''hardhat test''),
              (''deploy'', JStr ''hardhat run scripts/deploy.js --network rsktestnet''),
              (''deploy:mainnet'', JStr ''hardhat run scripts/deploy.js --network rskmainnet'')]),
           (''devDependencies'', JObj
             [(''@nomicfoundation/hardhat-toolbox'', JStr ''^4.0.0''),
              (''@nomicfoundation/hardhat-ethers'', JStr ''^3.0.5''),
              (''@nomicfoundation/hardhat-verify'', JStr ''^2.0.3''),
              (''hardhat'', JStr ''^2.19.4''),
              (''ethers'', JStr ''^6.10.0''),
              (''dotenv'', JStr ''^16.3.1''),
              (''concurrently'', JStr ''^8.2.2'')])]\<close>

definition foundry_rootPackageJson :: json where
  \<open>foundry_rootPackageJson =
     JObj [(''name'', JStr ''rsk-dapp''),
           (''version'', JStr ''0.1.0''),
           (''private'', JBool True),
           (''scripts'', JObj
             [(''dev'', JStr ''concurrently "npm run dev:anvil" "npm run dev:frontend"''),
              (''dev:anvil'', JStr ''anvil --fork-url https://public-node.testnet.rsk.co''),
              (''dev:frontend'', JStr ''cd frontend && npm run dev''),
              (''build'', JStr ''npm run build:contracts && cd frontend && npm run build''),
              (''build:contracts'', JStr ''cd contracts && forge build''),
              (''test'', JStr ''cd contracts && forge test''),
              (''deploy'', JStr
                ''cd contracts && forge script script/Deploy.s.sol --rpc-url $RSK_TESTNET_RPC_URL --broadcast''),
              (''deploy:mainnet'', JStr
                ''cd contracts && forge script script/Deploy.s.sol --rpc-url $RSK_MAINNET_RPC_URL --broadcast'')]),
           (''devDependencies'', JObj [(''concurrently'', JStr ''^8.2.2'')])]\<close>

definition frontendPackageJson :: json where
  "frontendPackageJson =
     JObj [(''name'', JStr ''rsk-dapp-frontend''),
           (''version'', JStr ''0.1.0''),
           (''private'', JBool True),
           (''type'', JStr ''module''),
           (''scripts'', JObj
             [(''dev'', JStr ''vite''),
              (''build'', JStr ''vite build''),
              (''preview'', JStr ''vite preview'')]),
           (''dependencies'', JObj
             [(''react'', JStr ''^18.2.0''),
              (''react-dom'', JStr ''^18.2.0''),
              (''ethers'', JStr ''^6.10.0''),
              (''@tanstack/react-query'', JStr ''^5.17.9''),
              (''wagmi'', JStr ''^2.5.7''),
              (''viem'', JStr ''^2.7.6''),
              (''@rainbow-me/rainbowkit'', JStr ''^2.0.0'')]),
           (''devDependencies'', JObj
             [(''@types/react'', JStr ''^18.2.48''),
              (''@types/react-dom'', JStr ''^18.2.18''),
              (''@vitejs/plugin-react'', JStr ''^4.2.1''),
              (''vite'', JStr ''^5.0.11''),
              (''autoprefixer'', JStr ''^10.4.16''),
              (''postcss'', JStr ''^8.4.33''),
              (''tailwindcss'', JStr ''^3.4.1'')])]"

subsection \<open>Steps\<close>

text \<open>The filter of \<open>copyTemplate\<close>, applied to the basename of each entry.\<close>

definition copy_filter :: "string \<Rightarrow> bool" where
  "copy_filter base =
     (\<not> str_includes base ''node_modules'' \<and>
      \<not> str_includes base ''.git'' \<and>
      \<not> str_includes base ''dist'' \<and>
      \<not> str_includes base ''.DS_Store'')"

text \<open>
  \<open>fs.copy(src, dst, {filter})\<close> asks the filter for the source itself and then for
  every entry it descends to; a rejected directory is not entered. So the entry at
  \<open>src @ rel\<close> arrives at \<open>dst @ rel\<close> exactly when the basename of \<open>src\<close> and every
  component of \<open>rel\<close> pass the filter.
\<close>

definition copied_entry :: "path \<Rightarrow> path \<Rightarrow> filesystem \<Rightarrow> path \<Rightarrow> node option" where
  "copied_entry src dst fs q =
     (if prefix dst q \<and> list_all copy_filter (basename src # drop (length dst) q)
      then fs (src @ drop (length dst) q) else None)"

definition copy_fs :: "path \<Rightarrow> path \<Rightarrow> (path \<Rightarrow> bool) \<Rightarrow> filesystem \<Rightarrow> filesystem" where
  "copy_fs src dst written fs =
     (\<lambda>q. case copied_entry src dst fs q of
             Some n \<Rightarrow> if written q then Some n else fs q
           | None \<Rightarrow> fs q)"

text \<open>
  The copy is one operation for the fault count; when it fails, the entries already
  written stay. The library refuses to copy a tree into itself; the target is a
  directory here, so a source that is not a directory is refused as well.
\<close>

definition copyTemplate :: "environment \<Rightarrow> path \<Rightarrow> path \<Rightarrow> unit action" where
  "copyTemplate E templatePath targetPath s =
     (let s1 = s\<lparr>ticks := Suc (ticks s)\<rparr> in
      if prefix templatePath targetPath \<or> files s templatePath \<noteq> Some Dir then (Inl IOError, s1)
      else if fault_at E (ticks s) then
        (Inl IOError, s1\<lparr>files := copy_fs templatePath targetPath (partial_copy E) (files s)\<rparr>)
      else (Inr (), s1\<lparr>files := copy_fs templatePath targetPath (\<lambda>q. True) (files s)\<rparr>))"

text \<open>\<open>obj[key] = value\<close> on a plain object: an own property keeps its place, a new one goes last.\<close>

definition assign :: "(string \<times> json) list \<Rightarrow> string \<Rightarrow> json \<Rightarrow> (string \<times> json) list" where
  "assign obj key v = AList.update key v obj"

fun string_of_nat :: "nat \<Rightarrow> string" where
  "string_of_nat n =
     (if n < 10 then [char_of (48 + n)] else string_of_nat (n div 10) @ [char_of (48 + n mod 10)])"

fun indexed :: "nat \<Rightarrow> 'a list \<Rightarrow> (string \<times> 'a) list" where
  "indexed i [] = []"
| "indexed i (x # xs) = (string_of_nat i, x) # indexed (Suc i) xs"

text \<open>
  The own enumerable properties that \<open>{...v}\<close> copies: those of an object, the indices
  of an array or of a string, none of \<open>undefined\<close>, \<open>null\<close>, a boolean or a number.
  An association list stands for the object that binds each key to its first entry, so
  each key is enumerated once.
\<close>

definition own_properties :: "json option \<Rightarrow> (string \<times> json) list" where
  "own_properties v =
     AList.clearjunk
       (case v of
          Some (JObj kvs) \<Rightarrow> kvs
        | Some (JArr xs) \<Rightarrow> indexed 0 xs
        | Some (JStr cs) \<Rightarrow> indexed 0 (map (\<lambda>c. JStr [c]) cs)
        | _ \<Rightarrow> [])"

text \<open>\<open>{...a, ...b}\<close>\<close>

definition spread :: "(string \<times> json) list \<Rightarrow> (string \<times> json) list \<Rightarrow> (string \<times> json) list" where
  "spread a b = foldl (\<lambda>obj (k, v). assign obj k v) [] (a @ b)"

text \<open>
  The assignments of \<open>updatePackageJson\<close> on the value read from the manifest. On an
  array the properties are set but not serialised; on \<open>null\<close> or a primitive the first
  assignment is a \<open>TypeError\<close> (the module is strict code).
\<close>

definition set_manifest_fields ::
  "json \<Rightarrow> string \<Rightarrow> (string \<times> string) list option \<Rightarrow> error + json" where
  "set_manifest_fields packageJson projectName additionalDeps =
     (case packageJson of
        JObj kvs \<Rightarrow>
          (let o1 = assign kvs ''name'' (JStr projectName);
               o2 = assign o1 ''version'' (JStr ''0.1.0'');
               o3 = assign o2 ''private'' (JBool True)
           in case additionalDeps of
                None \<Rightarrow> Inr (JObj o3)
              | Some deps \<Rightarrow>
                  Inr (JObj (assign o3 ''dependencies''
                    (JObj (spread (own_properties (map_of o3 ''dependencies''))
                                  (map (\<lambda>(k, v). (k, JStr v)) (AList.clearjunk deps)))))))
      | JArr xs \<Rightarrow> Inr (JArr xs)
      | _ \<Rightarrow> Inl TypeError)"

definition updatePackageJson ::
  "environment \<Rightarrow> path \<Rightarrow> string \<Rightarrow> (string \<times> string) list option \<Rightarrow> unit action" where
  "updatePackageJson E projectPath projectName additionalDeps =
     (let packageJsonPath = path_join projectPath ''package.json'' in
      and_then (pathExists packageJsonPath) (\<lambda>found.
        if found then
          and_then (readJson E packageJsonPath) (\<lambda>packageJson.
            case set_manifest_fields packageJson projectName additionalDeps of
              Inl e \<Rightarrow> throw e
            | Inr updated \<Rightarrow> writeJson E packageJsonPath updated)
        else return ()))"

text \<open>\<open>text.replace(/=.*/g, '=')\<close>: from each \<open>=\<close> up to the end of its line.\<close>

definition line_terminator :: "char \<Rightarrow> bool" where
  "line_terminator c = (c = CHR ''\<newline>'' \<or> c = CHR 0x0D)"

function redact :: "string \<Rightarrow> string" where
  "redact [] = []"
| "redact (c # cs) =
     (if c = CHR ''='' then CHR ''='' # redact (dropWhile (\<lambda>x. \<not> line_terminator x) cs)
      else c # redact cs)"
  by pat_completeness auto
termination
  by (relation "measure length") (auto simp: length_dropWhile_le less_Suc_eq_le)

text \<open>Reading an environment file: its lines, and the shape of one line.\<close>

definition file_lines :: "string \<Rightarrow> string list" where
  "file_lines t =
     (let pieces = split_at CHR ''\<newline>'' t in if last pieces = [] then butlast pieces else pieces)"

definition key_of :: "string \<Rightarrow> string" where
  "key_of l = takeWhile (\<lambda>c. c \<noteq> CHR ''='') l"

definition value_of :: "string \<Rightarrow> string" where
  "value_of l = drop 1 (dropWhile (\<lambda>c. c \<noteq> CHR ''='') l)"

definition key_char :: "char \<Rightarrow> bool" where
  "key_char c = (is_upper c \<or> is_lower c \<or> is_digit c \<or> c = CHR ''_'')"

text \<open>The form \<open>KEY=value\<close>: a non-empty key of letters, digits and underscores, then \<open>=\<close>.\<close>

definition is_assignment :: "string \<Rightarrow> bool" where
  "is_assignment l = (CHR ''='' \<in> set l \<and> key_of l \<noteq> [] \<and> list_all key_char (key_of l))"

definition is_comment_or_blank :: "string \<Rightarrow> bool" where
  "is_comment_or_blank l = (l = [] \<or> hd l = CHR ''#'')"

text \<open>What the replacement does to one line.\<close>

definition redact_line :: "string \<Rightarrow> string" where
  "redact_line l = (if CHR ''='' \<in> set l then key_of l @ ''='' else l)"

definition createEnvFile :: "environment \<Rightarrow> path \<Rightarrow> string \<Rightarrow> unit action" where
  "createEnvFile E projectPath template =
     (let envPath = path_join projectPath ''.env'' in
      seq (writeFile E envPath envContent)
          (let envExampleContent = redact envContent in
           writeFile E (path_join projectPath ''.env.example'') envExampleContent))"

definition createGitignore :: "environment \<Rightarrow> path \<Rightarrow> unit action" where
  "createGitignore E projectPath = writeFile E (path_join projectPath ''.gitignore'') gitignoreContent"

subsection \<open>The two generated templates\<close>

definition createHardhatReactTemplate :: "environment \<Rightarrow> path \<Rightarrow> unit action" where
  "createHardhatReactTemplate E projectPath =
     (let dirs = [''contracts'', ''scripts'', ''test'', ''frontend/src/components'',
                  ''frontend/src/hooks'', ''frontend/src/utils'', ''frontend/src/contracts'',
                  ''frontend/public''];
          L = hardhat_literals E
      in
      seq (for_each dirs (\<lambda>dir. ensureDir E (path_join projectPath dir)))
     (seq (writeJson E (path_join projectPath ''package.json'') hardhat_rootPackageJson)
     (seq (writeFile E (path_join projectPath ''hardhat.config.js'') hardhatConfig)
     (seq (writeFile E (path_join projectPath ''contracts/RootstockGreeter.sol'') (sampleContract L))
     (seq (writeFile E (path_join projectPath ''scripts/deploy.js'') (deployScript L))
     (seq (writeFile E (path_join projectPath ''test/RootstockGreeter.test.js'') (testFile L))
     (seq (writeJson E (path_join projectPath ''frontend/package.json'') frontendPackageJson)
     (seq (writeFile E (path_join projectPath ''frontend/vite.config.js'') (viteConfig L))
     (seq (writeFile E (path_join projectPath ''frontend/index.html'') (indexHtml L))
     (seq (writeFile E (path_join projectPath ''frontend/src/main.jsx'') (mainJsx L))
     (seq (writeFile E (path_join projectPath ''frontend/src/App.jsx'') (appJsx L))
     (seq (writeFile E (path_join projectPath ''frontend/src/App.css'') (appCss L))
          (writeFile E (path_join projectPath ''frontend/src/index.css'') (indexCss L))))))))))))))"

definition createFoundryViteTemplate :: "environment \<Rightarrow> path \<Rightarrow> unit action" where
  "createFoundryViteTemplate E projectPath =
     (let dirs = [''contracts/src'', ''contracts/test'', ''contracts/script'',
                  ''frontend/src/components'', ''frontend/src/hooks'', ''frontend/src/utils'',
                  ''frontend/src/contracts'', ''frontend/public''];
          L = foundry_literals E
      in
      seq (for_each dirs (\<lambda>dir. ensureDir E (path_join projectPath dir)))
     (seq (writeJson E (path_join projectPath ''package.json'') foundry_rootPackageJson)
     (seq (writeFile E (path_join projectPath ''contracts/foundry.toml'') foundryToml)
     (seq (writeFile E (path_join projectPath ''contracts/src/RootstockGreeter.sol'') (sampleContract L))
     (seq (writeFile E (path_join projectPath ''contracts/script/Deploy.s.sol'') (deployScript L))
     (seq (writeFile E (path_join projectPath ''contracts/test/RootstockGreeter.t.sol'') (testFile L))
     (seq (writeJson E (path_join projectPath ''frontend/package.json'') frontendPackageJson)
     (seq (writeFile E (path_join projectPath ''frontend/vite.config.js'') (viteConfig L))
     (seq (writeFile E (path_join projectPath ''frontend/index.html'') (indexHtml L))
     (seq (writeFile E (path_join projectPath ''frontend/src/main.jsx'') (mainJsx L))
     (seq (writeFile E (path_join projectPath ''frontend/src/App.jsx'') (appJsx L))
     (seq (writeFile E (path_join projectPath ''frontend/src/App.css'') (appCss L))
          (writeFile E (path_join projectPath ''frontend/src/index.css'') (indexCss L))))))))))))))"

definition createTemplateStructure :: "environment \<Rightarrow> path \<Rightarrow> string \<Rightarrow> unit action" where
  "createTemplateStructure E projectPath template =
     (if template = ''hardhat-react'' then createHardhatReactTemplate E projectPath
      else if template = ''foundry-vite'' then createFoundryViteTemplate E projectPath
      else return ())"

subsection \<open>\<open>createProject\<close>\<close>

datatype package_manager = npm | yarn | pnpm

text \<open>
  The options object. An absent \<open>skipInstall\<close> or \<open>skipGit\<close> is falsy, so both are plain
  booleans. The fields carry the prefix \<open>opt_\<close>: the bare names are the local variables
  of the functions below.
\<close>

record CreateProjectOptions =
  opt_name :: string
  opt_template :: string
  opt_projectPath :: path
  opt_packageManager :: package_manager
  opt_skipInstall :: bool
  opt_skipGit :: bool

text \<open>\<open>try { m } catch (error) { handler; throw error }\<close>\<close>

definition try_rethrow :: "'a action \<Rightarrow> unit action \<Rightarrow> 'a action" where
  "try_rethrow m handler s =
     (case m s of
        (Inl e, s') \<Rightarrow> (case handler s' of (Inl e', s'') \<Rightarrow> (Inl e', s'') | (Inr u, s'') \<Rightarrow> (Inl e, s''))
      | (Inr x, s') \<Rightarrow> (Inr x, s'))"

text \<open>
  The body of the \<open>try\<close> block, in two parts: the steps whose failure leaves the block
  (directory, template, manifest, environment files, ignore list), and the two steps
  wrapped in their own \<open>try\<close> (git, install).
\<close>

definition fatal_steps :: "environment \<Rightarrow> CreateProjectOptions \<Rightarrow> unit action" where
  "fatal_steps E options =
     (let name = opt_name options; template = opt_template options;
          projectPath = opt_projectPath options
      in
      seq (ensureDir E projectPath)
     (seq (let templatePath = foldl path_join (dirname E) [''..'', ''..'', ''templates'', template] in
           and_then (pathExists templatePath) (\<lambda>found.
             if \<not> found then createTemplateStructure E projectPath template
             else copyTemplate E templatePath projectPath))
     (seq (updatePackageJson E projectPath name None)
     (seq (createEnvFile E projectPath template)
          (createGitignore E projectPath)))))"

definition best_effort_steps :: "environment \<Rightarrow> CreateProjectOptions \<Rightarrow> unit action" where
  \<open>best_effort_steps E options =
     (let projectPath = opt_projectPath options; packageManager = opt_packageManager options
      in
      seq (if \<not> opt_skipGit options then
             try_warn
               (seq (execSync_ignore E ''git init'' projectPath)
               (seq (execSync_ignore E ''git add -A'' projectPath)
                    (execSync_ignore E ''git commit -m "Initial commit from create-rsk-dapp"''
                       projectPath)))
           else return ())
          (if \<not> opt_skipInstall options then
             (let installCommand = (if packageManager = yarn then ''yarn''
                                    else if packageManager = pnpm then ''pnpm install''
                                    else ''npm install'')
              in try_warn (execSync_ignore E installCommand projectPath))
           else return ()))\<close>

definition createProject :: "environment \<Rightarrow> CreateProjectOptions \<Rightarrow> unit action" where
  "createProject E options =
     and_then (pathExists (opt_projectPath options)) (\<lambda>found.
       if found then throw (DirectoryExists (opt_name options))
       else try_rethrow (seq (fatal_steps E options) (best_effort_steps E options))
                        (remove (opt_projectPath options)))"

section \<open>Deployment\<close>















text \<open>Reading a variable from an environment file: the value of the first line that assigns it.\<close>

definition env_lookup :: "string \<Rightarrow> string \<Rightarrow> string option" where
  "env_lookup key content =
     map_option value_of
       (find (\<lambda>l. CHR ''='' \<in> set l \<and> key_of l = key) (file_lines content))"

section \<open>Frames and sample runs\<close>




text \<open>
  A concrete environment for running the model: the faults and the behaviour of the
  commands are given, JSON texts are all \<open>{}\<close>, the opaque literals are empty.
\<close>

definition blank_literals :: template_literals where
  "blank_literals = \<lparr> sampleContract = [], deployScript = [], testFile = [], viteConfig = [],
     indexHtml = [], mainJsx = [], appJsx = [], appCss = [], indexCss = [] \<rparr>"

definition sample_environment ::
  "(nat \<Rightarrow> bool) \<Rightarrow> (string \<Rightarrow> path \<Rightarrow> filesystem \<Rightarrow> (string + string) \<times> filesystem) \<Rightarrow> environment" where
  "sample_environment faults run =
     \<lparr> fault_at = faults, exec = run,
       JSON_parse = (\<lambda>t. if t = ''{}'' then Some (JObj []) else None),
       JSON_stringify = (\<lambda>j. ''{}''),
       dirname = [''opt'', ''cli'', ''dist'', ''commands''], cwd = [''home'', ''my-dapp''],
       answers = [],
       partial_copy = (\<lambda>q. False),
       hardhat_literals = blank_literals, foundry_literals = blank_literals \<rparr>"

definition failing_command :: "string \<Rightarrow> path \<Rightarrow> filesystem \<Rightarrow> (string + string) \<times> filesystem" where
  "failing_command c d fs = (Inl ''exit 1'', fs)"

definition sample_options :: "path \<Rightarrow> CreateProjectOptions" where
  "sample_options p = \<lparr> opt_name = ''my-dapp'', opt_template = ''hardhat-react'', opt_projectPath = p,
     opt_packageManager = npm, opt_skipInstall = False, opt_skipGit = False \<rparr>"

definition home_only :: state where
  "home_only = \<lparr> files = (\<lambda>q. if q = [''home''] then Some Dir else None), ticks = 0, commands = [] \<rparr>"

definition home_with_project :: state where
  "home_with_project =
     \<lparr> files = (\<lambda>q. if q = [''home''] \<or> q = [''home'', ''my-dapp''] then Some Dir else None),
       ticks = 0, commands = [] \<rparr>"

text \<open>A state with a packaged template that holds a \<open>.gitignore\<close> and a \<open>README.md\<close>.\<close>

definition packaged_template :: state where
  "packaged_template =
     \<lparr> files = (\<lambda>q.
         if q \<in> {[''opt''], [''opt'', ''cli''], [''opt'', ''cli'', ''templates''],
                  [''opt'', ''cli'', ''templates'', ''hardhat-react''],
                  [''home''], [''home'', ''my-dapp'']} then Some Dir
         else if q = [''opt'', ''cli'', ''templates'', ''hardhat-react'', ''.gitignore'']
           then Some (File ''node_modules'')
         else if q = [''opt'', ''cli'', ''templates'', ''hardhat-react'', ''README.md'']
           then Some (File ''# dApp'')
         else None),
       ticks = 0, commands = [] \<rparr>"

text \<open>A manifest with scripts, an engine constraint and one dependency, and a state that holds it.\<close>

definition manifest_example :: json where
  "manifest_example =
     JObj [(''name'', JStr ''template''),
           (''scripts'', JObj [(''build'', JStr ''vite build'')]),
           (''engines'', JObj [(''node'', JStr ''>=18'')]),
           (''dependencies'', JObj [(''a'', JStr ''1.0'')])]"

definition manifest_environment :: environment where
  "manifest_environment =
     (sample_environment (\<lambda>n. False) failing_command)
       \<lparr> JSON_parse := (\<lambda>t. if t = ''manifest'' then Some manifest_example else None) \<rparr>"

definition manifest_state :: state where
  "manifest_state =
     \<lparr> files = (\<lambda>q. if q = [''home''] \<or> q = [''home'', ''my-dapp''] then Some Dir
                     else if q = [''home'', ''my-dapp'', ''package.json''] then Some (File ''manifest'')
                     else None),
       ticks = 0, commands = [] \<rparr>"







text \<open>An action keeps the file at \<open>q\<close> when no run of it changes the content of that file.\<close>

definition keeps :: "path \<Rightarrow> 'a action \<Rightarrow> bool" where
  "keeps q m = (\<forall>s c. files s q = Some (File c) \<longrightarrow> files (snd (m s)) q = Some (File c))"


section \<open>Properties of the network table\<close>

lemma str_includes_iff: "str_includes hay needle \<longleftrightarrow> (\<exists>pre post. hay = pre @ needle @ post)"
proof (induction hay)
  case Nil
  then show ?case by auto
next
  case (Cons c cs)
  show ?case
  proof
    assume "str_includes (c # cs) needle"
    then consider "prefix needle (c # cs)" | "str_includes cs needle" by auto
    then show "\<exists>pre post. c # cs = pre @ needle @ post"
    proof cases
      case 1
      then obtain post where "c # cs = needle @ post" by (auto simp: prefix_def)
      then have "c # cs = [] @ needle @ post" by simp
      then show ?thesis by blast
    next
      case 2
      with Cons.IH obtain pre post where "cs = pre @ needle @ post" by blast
      then have "c # cs = (c # pre) @ needle @ post" by simp
      then show ?thesis by blast
    qed
  next
    assume "\<exists>pre post. c # cs = pre @ needle @ post"
    then obtain pre post where eq: "c # cs = pre @ needle @ post" by blast
    show "str_includes (c # cs) needle"
    proof (cases pre)
      case Nil
      with eq have "prefix needle (c # cs)" by (simp add: prefix_def)
      then show ?thesis by simp
    next
      case (Cons p ps)
      with eq have "cs = ps @ needle @ post" by simp
      with Cons.IH have "str_includes cs needle" by blast
      then show ?thesis by simp
    qed
  qed
qed

text \<open>
  C4 (as the code has it). For the two registered identifiers the lookup returns the
  registered configuration. For every other identifier the lookup does not fail: it
  returns \<open>undefined\<close>, or the inherited member when the identifier names a member of
  \<open>Object.prototype\<close>. No \<open>UnknownNetwork\<close> failure exists in the function.
\<close>

theorem getNetworkConfig_lookup:
  "getNetworkConfig ''mainnet'' = Inr (Own mainnet) \<and>
   getNetworkConfig ''testnet'' = Inr (Own testnet) \<and>
   (network \<notin> {''mainnet'', ''testnet''} \<longrightarrow>
      getNetworkConfig network =
        Inr (if network \<in> set object_prototype_members then Inherited network else Undefined))"
  by (simp add: getNetworkConfig_def get_property_def ROOTSTOCK_NETWORKS_def)

theorem getNetworkConfig_lookup_witness:
  "''devnet'' \<notin> {''mainnet'', ''testnet''} \<and> getNetworkConfig ''devnet'' = Inr Undefined"
  using getNetworkConfig_lookup [of "''devnet''"]
  by (simp add: object_prototype_members_def)

text \<open>
  C4 (as stated) fails: the unregistered identifier \<open>devnet\<close> is answered with
  \<open>undefined\<close>, not with the failure \<open>UnknownNetwork\<close>.
\<close>

theorem getNetworkConfig_unknown_counterexample:
  "getNetworkConfig ''devnet'' = Inr Undefined \<and> getNetworkConfig ''devnet'' \<noteq> Inl UnknownNetwork"
  by (simp add: getNetworkConfig_def get_property_def ROOTSTOCK_NETWORKS_def
      object_prototype_members_def)

section \<open>Properties of the name validation\<close>

lemma validateProjectName_first: "validateProjectName v name = first_violation (rule_violations v name)"
  by (simp add: validateProjectName_def rule_violations_def Let_def)

text \<open>
  C3 (as the code has it). The rules are tried in the specification's order and the
  first violated rule ends the validation: the result is invalid with the messages of
  that rule alone. The result is valid exactly when no rule is violated, and then the
  list of messages is empty.
\<close>

theorem validateProjectName_first_violation:
  "validateProjectName v name = first_violation (rule_violations v name) \<and>
   (valid (validateProjectName v name) \<longleftrightarrow> list_all (\<lambda>r. r = None) (rule_violations v name)) \<and>
   (valid (validateProjectName v name) \<longrightarrow> errors (validateProjectName v name) = [])"
  by (simp add: validateProjectName_def rule_violations_def Let_def)

theorem validateProjectName_first_violation_witness:
  "valid (validateProjectName npm_capital_rule ''my-dapp'') \<and>
   errors (validateProjectName npm_capital_rule ''my-dapp'') = []"
  using validateProjectName_first_violation [of npm_capital_rule "''my-dapp''"]
  by (simp add: rule_violations_def npm_capital_rule_def toLowerCase_def toLowerCase_char_def
      is_upper_def code_def charset_test_def name_char_def is_lower_def is_digit_def)

text \<open>
  C3 (as stated) fails. \<open>MyApp\<close> violates the library's rule and the character-set rule;
  the result carries the library's message alone, so it differs from the accumulated
  result, which also holds the character-set message.
\<close>

theorem validateProjectName_accumulating_counterexample:
  "\<not> charset_test ''MyApp'' \<and>
   errors (validateProjectName npm_capital_rule ''MyApp'') =
     [''name can no longer contain capital letters''] \<and>
   charset_message \<in> set (errors (validate_accumulating npm_capital_rule ''MyApp'')) \<and>
   charset_message \<notin> set (errors (validateProjectName npm_capital_rule ''MyApp''))"
  by (simp add: validateProjectName_def validate_accumulating_def rule_violations_def
      npm_capital_rule_def toLowerCase_def toLowerCase_char_def is_upper_def code_def
      charset_test_def name_char_def is_lower_def is_digit_def present_def Let_def
      charset_message_def)

section \<open>Properties of project creation\<close>

subsection \<open>The fatal steps stay inside the target\<close>

























subsection \<open>Sample runs\<close>







subsection \<open>Precondition and rollback\<close>

text \<open>
  C2. When the target path already exists (it is the root, or the file system has an
  entry for it), \<open>createProject\<close> fails with \<open>DirectoryExists\<close> and leaves the whole
  state as it was: no file operation was counted, no command was run, no file was
  touched.
\<close>

theorem createProject_existing_directory:
  "opt_projectPath options = [] \<or> files s (opt_projectPath options) \<noteq> None \<Longrightarrow>
   createProject E options s = (Inl (DirectoryExists (opt_name options)), s)"
  by (simp add: createProject_def and_then_def pathExists_def throw_def)

theorem createProject_existing_directory_witness:
  "files home_with_project [''home'', ''my-dapp''] \<noteq> None \<and>
   createProject (sample_environment (\<lambda>n. False) failing_command)
     (sample_options [''home'', ''my-dapp'']) home_with_project =
     (Inl (DirectoryExists ''my-dapp''), home_with_project)"
  using createProject_existing_directory
    [where s = home_with_project and options = "sample_options [''home'', ''my-dapp'']"
        and E = "sample_environment (\<lambda>n. False) failing_command"]
  by (simp add: home_with_project_def sample_options_def)




section \<open>Properties of the template copy\<close>

lemma copy_filter_iff:
  "copy_filter base \<longleftrightarrow>
     \<not> (\<exists>frag \<in> set [''node_modules'', ''.git'', ''dist'', ''.DS_Store''].
          \<exists>pre post. base = pre @ frag @ post)"
  by (simp add: copy_filter_def str_includes_iff)

text \<open>
  C10. The filter accepts a basename exactly when none of the four fragments occurs in
  it, so \<open>.gitignore\<close> and \<open>distribution\<close> are rejected. An entry of the template whose
  name is rejected is not copied, and neither is anything below it: whatever the outcome
  of the copy, the target keeps what it had at that place (nothing, in a fresh target).
  In a successful copy an entry is copied when the basename of the template and every
  component of the entry's relative path are accepted.
\<close>

theorem copyTemplate_omits:
  "(copy_filter base \<longleftrightarrow>
     \<not> (\<exists>frag \<in> set [''node_modules'', ''.git'', ''dist'', ''.DS_Store''].
          \<exists>pre post. base = pre @ frag @ post)) \<and>
   \<not> copy_filter ''.gitignore'' \<and> \<not> copy_filter ''distribution'' \<and>
   (rel \<noteq> [] \<and> \<not> copy_filter (last rel) \<longrightarrow>
      files (snd (copyTemplate E src dst s)) (dst @ rel) = files s (dst @ rel) \<and>
      (\<forall>below. files (snd (copyTemplate E src dst s)) (dst @ rel @ below) = files s (dst @ rel @ below))) \<and>
   (fst (copyTemplate E src dst s) = Inr () \<and> list_all copy_filter (basename src # rel) \<and>
    files s (src @ rel) \<noteq> None \<longrightarrow>
      files (snd (copyTemplate E src dst s)) (dst @ rel) = files s (src @ rel))"
proof -
  have gi: "\<not> copy_filter ''.gitignore''"
    by (simp add: copy_filter_def)
  have di: "\<not> copy_filter ''distribution''"
    by (simp add: copy_filter_def)
  have omit: "files (snd (copyTemplate E src dst s)) (dst @ rel @ below) = files s (dst @ rel @ below)"
    if "rel \<noteq> []" "\<not> copy_filter (last rel)" for below
  proof -
    from that have "last rel \<in> set rel" by simp
    with that have nl: "\<not> list_all copy_filter rel"
      by (auto simp: list_all_iff)
    then have "copied_entry src dst (files s) (dst @ rel @ below) = None"
      by (simp add: copied_entry_def)
    then show ?thesis
      by (simp add: copyTemplate_def Let_def copy_fs_def)
  qed
  have keep: "files (snd (copyTemplate E src dst s)) (dst @ rel) = files s (src @ rel)"
    if "fst (copyTemplate E src dst s) = Inr ()" "list_all copy_filter (basename src # rel)"
       "files s (src @ rel) \<noteq> None"
    using that
    by (auto simp: copyTemplate_def Let_def copy_fs_def copied_entry_def split: if_splits)
  from omit [of "[]"] omit keep gi di copy_filter_iff show ?thesis by simp
qed

theorem copyTemplate_omits_witness:
  "fst (copyTemplate (sample_environment (\<lambda>n. False) failing_command)
         [''opt'', ''cli'', ''templates'', ''hardhat-react''] [''home'', ''my-dapp'']
         packaged_template) = Inr () \<and>
   files packaged_template [''opt'', ''cli'', ''templates'', ''hardhat-react'', ''.gitignore'']
     = Some (File ''node_modules'') \<and>
   files (snd (copyTemplate (sample_environment (\<lambda>n. False) failing_command)
         [''opt'', ''cli'', ''templates'', ''hardhat-react''] [''home'', ''my-dapp'']
         packaged_template)) [''home'', ''my-dapp'', ''.gitignore''] = None \<and>
   files (snd (copyTemplate (sample_environment (\<lambda>n. False) failing_command)
         [''opt'', ''cli'', ''templates'', ''hardhat-react''] [''home'', ''my-dapp'']
         packaged_template)) [''home'', ''my-dapp'', ''README.md''] = Some (File ''# dApp'')"
proof -
  let ?E = "sample_environment (\<lambda>n. False) failing_command"
  let ?src = "[''opt'', ''cli'', ''templates'', ''hardhat-react'']"
  let ?dst = "[''home'', ''my-dapp'']"
  have ok: "fst (copyTemplate ?E ?src ?dst packaged_template) = Inr ()"
    by (simp add: copyTemplate_def Let_def sample_environment_def packaged_template_def)
  have pass: "list_all copy_filter (basename ?src # [''README.md''])"
    by (simp add: copy_filter_def basename_def)
  have there: "files packaged_template (?src @ [''README.md'']) = Some (File ''# dApp'')"
    by (simp add: packaged_template_def)
  have git: "files packaged_template (?src @ [''.gitignore'']) = Some (File ''node_modules'')"
    by (simp add: packaged_template_def)
  have none: "files packaged_template (?dst @ [''.gitignore'']) = None"
    by (simp add: packaged_template_def)
  have rej: "[''.gitignore''] \<noteq> [] \<and> \<not> copy_filter (last [''.gitignore''])"
    by (simp add: copy_filter_def)
  note omit = copyTemplate_omits [of "''.gitignore''" "[''.gitignore'']" ?E ?src ?dst packaged_template,
      THEN conjunct2, THEN conjunct2, THEN conjunct2, THEN conjunct1, rule_format, OF rej]
  from omit none
  have a: "files (snd (copyTemplate ?E ?src ?dst packaged_template)) (?dst @ [''.gitignore'']) = None"
    by simp
  note keep = copyTemplate_omits [of "''README.md''" "[''README.md'']" ?E ?src ?dst packaged_template,
      THEN conjunct2, THEN conjunct2, THEN conjunct2, THEN conjunct2, rule_format]
  from keep ok pass there
  have b: "files (snd (copyTemplate ?E ?src ?dst packaged_template)) (?dst @ [''README.md''])
      = Some (File ''# dApp'')"
    by simp
  from ok git a b show ?thesis by simp
qed

section \<open>Properties of the manifest merge\<close>

lemma path_join_package_json: "path_join p ''package.json'' = p @ [''package.json'']"
  by (simp add: path_join_def path_step_def)

lemma map_of_assign: "map_of (assign obj k v) = (map_of obj)(k \<mapsto> v)"
  by (simp add: assign_def update_conv')

lemma map_of_foldl_assign:
  "map_of (foldl (\<lambda>obj (k, v). assign obj k v) acc xs) = map_of acc ++ map_of (rev xs)"
proof (induction xs arbitrary: acc)
  case Nil
  then show ?case by simp
next
  case (Cons x xs)
  obtain k v where x: "x = (k, v)" by (cases x)
  have "map_of (foldl (\<lambda>obj (k, v). assign obj k v) acc (x # xs)) =
        map_of (assign acc k v) ++ map_of (rev xs)"
    using Cons.IH [of "assign acc k v"] x by simp
  also have "\<dots> = map_of acc ++ map_of (rev (x # xs))"
    by (simp add: map_of_assign x map_add_upd_left fun_eq_iff map_add_def split: option.splits)
  finally show ?case .
qed

lemma map_of_rev_distinct: "distinct (map fst xs) \<Longrightarrow> map_of (rev xs) = map_of xs"
proof (induction xs)
  case Nil
  then show ?case by simp
next
  case (Cons x xs)
  obtain k v where x: "x = (k, v)" by (cases x)
  from Cons.prems x have nk: "k \<notin> fst ` set xs" and d: "distinct (map fst xs)" by auto
  from nk have none: "map_of xs k = None" by (simp add: map_of_eq_None_iff)
  have "map_of (rev (x # xs)) = map_of [x] ++ map_of (rev xs)"
    by simp
  also have "\<dots> = map_of [x] ++ map_of xs" using Cons.IH d by simp
  also have "\<dots> = map_of (x # xs)"
    using none x by (auto simp: fun_eq_iff map_add_def split: option.splits)
  finally show ?case .
qed

lemma map_of_spread:
  assumes "distinct (map fst a)" "distinct (map fst b)"
  shows "map_of (spread a b) k = (case map_of b k of Some v \<Rightarrow> Some v | None \<Rightarrow> map_of a k)"
proof -
  have "map_of (spread a b) = map_of (rev a) ++ map_of (rev b)"
    by (simp add: spread_def map_of_foldl_assign)
  with assms show ?thesis
    by (simp add: map_of_rev_distinct map_add_def)
qed

lemma distinct_own_properties: "distinct (map fst (own_properties v))"
  by (simp add: own_properties_def distinct_clearjunk)

lemma map_of_caller_deps:
  "map_of (map (\<lambda>(k, v). (k, JStr v)) (AList.clearjunk deps)) k = map_option JStr (map_of deps k)"
proof -
  have "map_of (map (\<lambda>(k, v). (k, JStr v)) xs) k = map_option JStr (map_of xs k)" for xs
    by (induction xs) auto
  then show ?thesis by (simp add: map_of_clearjunk)
qed

lemma distinct_caller_deps:
  "distinct (map fst (map (\<lambda>(k, v). (k, JStr v)) (AList.clearjunk (deps :: (string \<times> string) list))))"
proof -
  have "fst \<circ> (\<lambda>(k, v). (k, JStr v)) = (fst :: string \<times> string \<Rightarrow> string)"
    by (auto simp: fun_eq_iff)
  then show ?thesis by (simp add: distinct_clearjunk)
qed

lemma set_manifest_fields_object:
  "\<exists>kvs'. set_manifest_fields (JObj kvs) projectName additionalDeps = Inr (JObj kvs') \<and>
     map_of kvs' ''name'' = Some (JStr projectName) \<and>
     map_of kvs' ''version'' = Some (JStr ''0.1.0'') \<and>
     map_of kvs' ''private'' = Some (JBool True) \<and>
     (\<forall>k. k \<notin> {''name'', ''version'', ''private'', ''dependencies''} \<longrightarrow> map_of kvs' k = map_of kvs k) \<and>
     (case additionalDeps of
        None \<Rightarrow> map_of kvs' ''dependencies'' = map_of kvs ''dependencies''
      | Some deps \<Rightarrow>
          \<exists>merged. map_of kvs' ''dependencies'' = Some (JObj merged) \<and>
            (\<forall>k. map_of merged k =
                 (case map_of deps k of
                    Some v \<Rightarrow> Some (JStr v)
                  | None \<Rightarrow> map_of (own_properties (map_of kvs ''dependencies'')) k)))"
proof (cases additionalDeps)
  case None
  then show ?thesis
    by (simp add: set_manifest_fields_def Let_def map_of_assign)
next
  case (Some deps)
  let ?o3 = "assign (assign (assign kvs ''name'' (JStr projectName)) ''version'' (JStr ''0.1.0''))
               ''private'' (JBool True)"
  let ?merged = "spread (own_properties (map_of ?o3 ''dependencies''))
                   (map (\<lambda>(k, v). (k, JStr v)) (AList.clearjunk deps))"
  have same: "map_of ?o3 ''dependencies'' = map_of kvs ''dependencies''"
    by (simp add: map_of_assign)
  have m: "map_of ?merged k =
             (case map_of deps k of
                Some v \<Rightarrow> Some (JStr v)
              | None \<Rightarrow> map_of (own_properties (map_of kvs ''dependencies'')) k)" for k
    unfolding same
    by (simp add: map_of_spread [OF distinct_own_properties distinct_caller_deps]
        map_of_caller_deps split: option.splits)
  have r: "set_manifest_fields (JObj kvs) projectName additionalDeps =
             Inr (JObj (assign ?o3 ''dependencies'' (JObj ?merged)))"
    using Some by (simp add: set_manifest_fields_def Let_def)
  show ?thesis
    unfolding r using Some m
    by (intro exI [of _ "assign ?o3 ''dependencies'' (JObj ?merged)"])
       (simp add: map_of_assign)
qed

text \<open>
  C5. Without a manifest file \<open>updatePackageJson\<close> does nothing. With a manifest that
  holds a JSON object (and no I/O fault in the read and the write), the manifest is
  rewritten as an object whose \<open>name\<close> is the project name, whose \<open>version\<close> is \<open>0.1.0\<close>
  and whose \<open>private\<close> is true; every field other than these and \<open>dependencies\<close> is as it
  was; \<open>dependencies\<close> is as it was when the caller gives no extra dependencies, and
  otherwise binds each key of the caller to the caller's value and every other key as
  the existing dependency map did. No other file changes.
\<close>

theorem updatePackageJson_merge:
  "(files s (projectPath @ [''package.json'']) = None \<longrightarrow>
      updatePackageJson E projectPath projectName additionalDeps s = (Inr (), s)) \<and>
   (files s (projectPath @ [''package.json'']) = Some (File content) \<and>
    JSON_parse E content = Some (JObj kvs) \<and>
    \<not> fault_at E (ticks s) \<and> \<not> fault_at E (Suc (ticks s)) \<longrightarrow>
      (\<exists>kvs'. updatePackageJson E projectPath projectName additionalDeps s =
          (Inr (), s\<lparr>files := (files s)(projectPath @ [''package.json''] \<mapsto>
                                File (JSON_stringify E (JObj kvs'))),
                     ticks := ticks s + 2\<rparr>) \<and>
        map_of kvs' ''name'' = Some (JStr projectName) \<and>
        map_of kvs' ''version'' = Some (JStr ''0.1.0'') \<and>
        map_of kvs' ''private'' = Some (JBool True) \<and>
        (\<forall>k. k \<notin> {''name'', ''version'', ''private'', ''dependencies''} \<longrightarrow>
             map_of kvs' k = map_of kvs k) \<and>
        (case additionalDeps of
           None \<Rightarrow> map_of kvs' ''dependencies'' = map_of kvs ''dependencies''
         | Some deps \<Rightarrow>
             \<exists>merged. map_of kvs' ''dependencies'' = Some (JObj merged) \<and>
               (\<forall>k. map_of merged k =
                    (case map_of deps k of
                       Some v \<Rightarrow> Some (JStr v)
                     | None \<Rightarrow> map_of (own_properties (map_of kvs ''dependencies'')) k)))))"
proof (intro conjI impI)
  assume "files s (projectPath @ [''package.json'']) = None"
  then show "updatePackageJson E projectPath projectName additionalDeps s = (Inr (), s)"
    by (simp add: updatePackageJson_def path_join_package_json and_then_def pathExists_def return_def
        Let_def)
next
  assume h: "files s (projectPath @ [''package.json'']) = Some (File content) \<and>
    JSON_parse E content = Some (JObj kvs) \<and>
    \<not> fault_at E (ticks s) \<and> \<not> fault_at E (Suc (ticks s))"
  obtain kvs' where k: "set_manifest_fields (JObj kvs) projectName additionalDeps = Inr (JObj kvs')"
    and rest: "map_of kvs' ''name'' = Some (JStr projectName)"
      "map_of kvs' ''version'' = Some (JStr ''0.1.0'')"
      "map_of kvs' ''private'' = Some (JBool True)"
      "\<forall>k. k \<notin> {''name'', ''version'', ''private'', ''dependencies''} \<longrightarrow> map_of kvs' k = map_of kvs k"
      "(case additionalDeps of
           None \<Rightarrow> map_of kvs' ''dependencies'' = map_of kvs ''dependencies''
         | Some deps \<Rightarrow>
             \<exists>merged. map_of kvs' ''dependencies'' = Some (JObj merged) \<and>
               (\<forall>k. map_of merged k =
                    (case map_of deps k of
                       Some v \<Rightarrow> Some (JStr v)
                     | None \<Rightarrow> map_of (own_properties (map_of kvs ''dependencies'')) k)))"
    using set_manifest_fields_object [of kvs projectName additionalDeps] by blast
  have run: "updatePackageJson E projectPath projectName additionalDeps s =
          (Inr (), s\<lparr>files := (files s)(projectPath @ [''package.json''] \<mapsto>
                                File (JSON_stringify E (JObj kvs'))),
                     ticks := ticks s + 2\<rparr>)"
    using h k
    by (simp add: updatePackageJson_def path_join_package_json and_then_def pathExists_def
        readJson_def readFile_def io_def readFile_fs_def return_def writeJson_def writeFile_def
        writeFile_fs_def Let_def)
  from run rest show "\<exists>kvs'. updatePackageJson E projectPath projectName additionalDeps s =
          (Inr (), s\<lparr>files := (files s)(projectPath @ [''package.json''] \<mapsto>
                                File (JSON_stringify E (JObj kvs'))),
                     ticks := ticks s + 2\<rparr>) \<and>
        map_of kvs' ''name'' = Some (JStr projectName) \<and>
        map_of kvs' ''version'' = Some (JStr ''0.1.0'') \<and>
        map_of kvs' ''private'' = Some (JBool True) \<and>
        (\<forall>k. k \<notin> {''name'', ''version'', ''private'', ''dependencies''} \<longrightarrow>
             map_of kvs' k = map_of kvs k) \<and>
        (case additionalDeps of
           None \<Rightarrow> map_of kvs' ''dependencies'' = map_of kvs ''dependencies''
         | Some deps \<Rightarrow>
             \<exists>merged. map_of kvs' ''dependencies'' = Some (JObj merged) \<and>
               (\<forall>k. map_of merged k =
                    (case map_of deps k of
                       Some v \<Rightarrow> Some (JStr v)
                     | None \<Rightarrow> map_of (own_properties (map_of kvs ''dependencies'')) k)))"
    by blast
qed

theorem updatePackageJson_merge_witness:
  "updatePackageJson manifest_environment [''home'', ''my-dapp''] ''foo'' None home_only
     = (Inr (), home_only) \<and>
   (\<exists>kvs'. updatePackageJson manifest_environment [''home'', ''my-dapp''] ''foo''
              (Some [(''b'', ''2.0'')]) manifest_state =
            (Inr (), manifest_state
               \<lparr>files := (files manifest_state)([''home'', ''my-dapp'', ''package.json''] \<mapsto>
                           File (JSON_stringify manifest_environment (JObj kvs'))),
                ticks := 2\<rparr>) \<and>
      map_of kvs' ''name'' = Some (JStr ''foo'') \<and>
      map_of kvs' ''version'' = Some (JStr ''0.1.0'') \<and>
      map_of kvs' ''private'' = Some (JBool True) \<and>
      map_of kvs' ''scripts'' = Some (JObj [(''build'', JStr ''vite build'')]) \<and>
      map_of kvs' ''engines'' = Some (JObj [(''node'', JStr ''>=18'')]) \<and>
      (\<exists>merged. map_of kvs' ''dependencies'' = Some (JObj merged) \<and>
         map_of merged ''a'' = Some (JStr ''1.0'') \<and> map_of merged ''b'' = Some (JStr ''2.0'')))"
proof -
  let ?kvs = "[(''name'', JStr ''template''),
           (''scripts'', JObj [(''build'', JStr ''vite build'')]),
           (''engines'', JObj [(''node'', JStr ''>=18'')]),
           (''dependencies'', JObj [(''a'', JStr ''1.0'')])]"
  have absent: "files home_only ([''home'', ''my-dapp''] @ [''package.json'']) = None"
    by (simp add: home_only_def)
  have noop: "updatePackageJson manifest_environment [''home'', ''my-dapp''] ''foo'' None home_only
     = (Inr (), home_only)"
    using updatePackageJson_merge [where s = home_only and projectPath = "[''home'', ''my-dapp'']"
        and E = manifest_environment and projectName = "''foo''" and additionalDeps = None] absent
    by blast
  have pre: "files manifest_state ([''home'', ''my-dapp''] @ [''package.json'']) = Some (File ''manifest'') \<and>
    JSON_parse manifest_environment ''manifest'' = Some (JObj ?kvs) \<and>
    \<not> fault_at manifest_environment (ticks manifest_state) \<and>
    \<not> fault_at manifest_environment (Suc (ticks manifest_state))"
    by (simp add: manifest_state_def manifest_environment_def sample_environment_def
        manifest_example_def)
  from updatePackageJson_merge [where s = manifest_state and projectPath = "[''home'', ''my-dapp'']"
      and content = "''manifest''" and E = manifest_environment and kvs = ?kvs
      and projectName = "''foo''" and additionalDeps = "Some [(''b'', ''2.0'')]"] pre
  obtain kvs' merged where
    run: "updatePackageJson manifest_environment [''home'', ''my-dapp''] ''foo''
              (Some [(''b'', ''2.0'')]) manifest_state =
            (Inr (), manifest_state
               \<lparr>files := (files manifest_state)([''home'', ''my-dapp''] @ [''package.json''] \<mapsto>
                           File (JSON_stringify manifest_environment (JObj kvs'))),
                ticks := ticks manifest_state + 2\<rparr>)"
    and n: "map_of kvs' ''name'' = Some (JStr ''foo'')"
    and v: "map_of kvs' ''version'' = Some (JStr ''0.1.0'')"
    and p: "map_of kvs' ''private'' = Some (JBool True)"
    and other: "\<forall>k. k \<notin> {''name'', ''version'', ''private'', ''dependencies''} \<longrightarrow>
             map_of kvs' k = map_of ?kvs k"
    and d: "map_of kvs' ''dependencies'' = Some (JObj merged)"
    and m: "\<forall>k. map_of merged k =
                    (case map_of [(''b'', ''2.0'')] k of
                       Some v \<Rightarrow> Some (JStr v)
                     | None \<Rightarrow> map_of (own_properties (map_of ?kvs ''dependencies'')) k)"
    by auto
  from other have s: "map_of kvs' ''scripts'' = Some (JObj [(''build'', JStr ''vite build'')])"
    and e: "map_of kvs' ''engines'' = Some (JObj [(''node'', JStr ''>=18'')])"
    by simp_all
  from m have a: "map_of merged ''a'' = Some (JStr ''1.0'')"
    and b: "map_of merged ''b'' = Some (JStr ''2.0'')"
    by (simp_all add: own_properties_def)
  have t: "ticks manifest_state + 2 = 2" by (simp add: manifest_state_def)
  from run n v p s e d a b noop show ?thesis
    unfolding t by auto
qed

section \<open>Properties of the environment files\<close>

lemma path_join_env: "path_join p ''.env'' = p @ [''.env'']"
  by (simp add: path_join_def path_step_def)

lemma path_join_env_example: "path_join p ''.env.example'' = p @ [''.env.example'']"
  by (simp add: path_join_def path_step_def)

lemma redact_line_step:
  assumes "\<forall>c \<in> set l. \<not> line_terminator c"
  shows "redact (l @ CHR ''\<newline>'' # rest) = redact_line l @ CHR ''\<newline>'' # redact rest"
  using assms
proof (induction l)
  case Nil
  then show ?case by (simp add: redact_line_def)
next
  case (Cons c cs)
  show ?case
  proof (cases "c = CHR ''=''")
    case True
    from Cons.prems have "\<forall>x \<in> set cs. \<not> line_terminator x" by simp
    then have "dropWhile (\<lambda>x. \<not> line_terminator x) (cs @ CHR ''\<newline>'' # rest) = CHR ''\<newline>'' # rest"
      by (simp add: dropWhile_append2 line_terminator_def)
    with True show ?thesis by (simp add: redact_line_def key_of_def)
  next
    case False
    with Cons show ?thesis by (simp add: redact_line_def key_of_def)
  qed
qed

lemma redact_unlines:
  "\<forall>l \<in> set ls. \<forall>c \<in> set l. \<not> line_terminator c \<Longrightarrow>
   redact (unlines ls) = unlines (map redact_line ls)"
proof (induction ls)
  case Nil
  then show ?case by (simp add: unlines_def)
next
  case (Cons l ls)
  then have "redact (unlines ls) = unlines (map redact_line ls)" by simp
  moreover have "redact (l @ CHR ''\<newline>'' # unlines ls) = redact_line l @ CHR ''\<newline>'' # redact (unlines ls)"
    using Cons.prems by (intro redact_line_step) simp
  ultimately show ?case by (simp add: unlines_def)
qed

lemma split_at_line:
  "c \<notin> set l \<Longrightarrow> split_at c (l @ c # rest) = l # split_at c rest"
  by (induction l) (auto split: list.splits)

lemma split_at_unlines:
  "\<forall>l \<in> set ls. CHR ''\<newline>'' \<notin> set l \<Longrightarrow> split_at CHR ''\<newline>'' (unlines ls) = ls @ [[]]"
proof (induction ls)
  case Nil
  then show ?case by (simp add: unlines_def)
next
  case (Cons l ls)
  then have "split_at CHR ''\<newline>'' (unlines ls) = ls @ [[]]" by simp
  moreover have "unlines (l # ls) = l @ CHR ''\<newline>'' # unlines ls" by (simp add: unlines_def)
  ultimately show ?case using Cons.prems by (simp add: split_at_line)
qed

lemma file_lines_unlines:
  "\<forall>l \<in> set ls. CHR ''\<newline>'' \<notin> set l \<Longrightarrow> file_lines (unlines ls) = ls"
  by (simp add: file_lines_def split_at_unlines)

lemma redact_line_no_newline: "CHR ''\<newline>'' \<notin> set l \<Longrightarrow> CHR ''\<newline>'' \<notin> set (redact_line l)"
  by (auto simp: redact_line_def key_of_def dest: set_takeWhileD)

lemma file_lines_redact:
  assumes "\<forall>l \<in> set ls. \<forall>c \<in> set l. \<not> line_terminator c"
  shows "file_lines (redact (unlines ls)) = map redact_line ls"
proof -
  from assms have nl: "\<forall>l \<in> set ls. CHR ''\<newline>'' \<notin> set l"
    by (auto simp: line_terminator_def)
  then have "\<forall>l \<in> set (map redact_line ls). CHR ''\<newline>'' \<notin> set l"
    by (auto simp: redact_line_no_newline)
  then show ?thesis
    using assms by (simp add: redact_unlines file_lines_unlines)
qed

lemma envContent_no_terminators: "\<forall>l \<in> set envContent_lines. \<forall>c \<in> set l. \<not> line_terminator c"
  by (simp add: envContent_lines_def line_terminator_def)

lemma file_lines_envContent: "file_lines envContent = envContent_lines"
  unfolding envContent_def
  using envContent_no_terminators by (intro file_lines_unlines) (auto simp: line_terminator_def)

lemma file_lines_redact_envContent:
  "file_lines (redact envContent) = map redact_line envContent_lines"
  unfolding envContent_def by (rule file_lines_redact) (rule envContent_no_terminators)

lemma redact_line_assignment:
  assumes a: "is_assignment l"
  shows "redact_line l = key_of l @ ''='' \<and> is_assignment (redact_line l) \<and>
     key_of (redact_line l) = key_of l \<and> value_of (redact_line l) = []"
proof -
  have all: "\<forall>c \<in> set (takeWhile (\<lambda>c. c \<noteq> CHR ''='') l). c \<noteq> CHR ''=''"
    by (auto dest: set_takeWhileD)
  then have k: "takeWhile (\<lambda>c. c \<noteq> CHR ''='') (takeWhile (\<lambda>c. c \<noteq> CHR ''='') l @ ''='')
           = takeWhile (\<lambda>c. c \<noteq> CHR ''='') l"
    by (simp add: takeWhile_append2)
  from all have d: "dropWhile (\<lambda>c. c \<noteq> CHR ''='') (takeWhile (\<lambda>c. c \<noteq> CHR ''='') l @ ''='') = ''=''"
    by (simp add: dropWhile_append2)
  from a have r: "redact_line l = key_of l @ ''=''"
    by (simp add: is_assignment_def redact_line_def)
  from a k d show ?thesis
    unfolding r by (simp add: is_assignment_def key_of_def value_of_def)
qed

lemma envContent_shapes:
  "list_all (\<lambda>l. is_assignment l \<or> (is_comment_or_blank l \<and> CHR ''='' \<notin> set l)) envContent_lines"
  by (simp add: envContent_lines_def is_assignment_def is_comment_or_blank_def key_of_def
      key_char_def is_upper_def is_lower_def is_digit_def code_def)

lemma same_keys:
  "list_all (\<lambda>l. is_assignment l \<or> (is_comment_or_blank l \<and> CHR ''='' \<notin> set l)) ls \<Longrightarrow>
   map key_of (filter is_assignment (map redact_line ls)) = map key_of (filter is_assignment ls)"
proof (induction ls)
  case Nil
  then show ?case by simp
next
  case (Cons l ls)
  then have IH: "map key_of (filter is_assignment (map redact_line ls)) = map key_of (filter is_assignment ls)"
    by simp
  from Cons.prems consider "is_assignment l" | "\<not> is_assignment l" "CHR ''='' \<notin> set l" by auto
  then show ?case
  proof cases
    case 1
    from redact_line_assignment [OF 1]
    have "is_assignment (redact_line l)" and "key_of (redact_line l) = key_of l" by blast+
    with 1 IH show ?thesis by simp
  next
    case 2
    then have "redact_line l = l" by (simp add: redact_line_def)
    with 2 IH show ?thesis by simp
  qed
qed

text \<open>
  C6 (as the code has it). In an existing project directory, without an I/O fault,
  \<open>createEnvFile\<close> writes \<open>.env\<close> with the template text and \<open>.env.example\<close> with its
  redaction, and nothing else. The redacted file has the lines of the secrets file, in
  the same order, each one redacted. Every line of the secrets file is either of the
  form \<open>KEY=value\<close>, or a comment or blank line that the redaction leaves as it is. A
  line of the form \<open>KEY=value\<close> is redacted to \<open>KEY=\<close>, with the same key and an empty
  value. The two files have the same keys in the same order.
\<close>

theorem createEnvFile_redacted:
  "(files s projectPath = Some Dir \<and>
    files s (projectPath @ [''.env'']) \<noteq> Some Dir \<and>
    files s (projectPath @ [''.env.example'']) \<noteq> Some Dir \<and>
    \<not> fault_at E (ticks s) \<and> \<not> fault_at E (Suc (ticks s)) \<longrightarrow>
      createEnvFile E projectPath template s =
        (Inr (), s\<lparr>files := (files s)(projectPath @ [''.env''] \<mapsto> File envContent,
                                     projectPath @ [''.env.example''] \<mapsto> File (redact envContent)),
                   ticks := ticks s + 2\<rparr>)) \<and>
   file_lines (redact envContent) = map redact_line (file_lines envContent) \<and>
   list_all (\<lambda>l. is_assignment l \<or> (is_comment_or_blank l \<and> redact_line l = l))
     (file_lines envContent) \<and>
   (\<forall>l. is_assignment l \<longrightarrow>
        redact_line l = key_of l @ ''='' \<and> is_assignment (redact_line l) \<and>
        key_of (redact_line l) = key_of l \<and> value_of (redact_line l) = []) \<and>
   map key_of (filter is_assignment (file_lines (redact envContent))) =
     map key_of (filter is_assignment (file_lines envContent))"
proof -
  have run: "createEnvFile E projectPath template s =
        (Inr (), s\<lparr>files := (files s)(projectPath @ [''.env''] \<mapsto> File envContent,
                                     projectPath @ [''.env.example''] \<mapsto> File (redact envContent)),
                   ticks := ticks s + 2\<rparr>)"
    if "files s projectPath = Some Dir" "files s (projectPath @ [''.env'']) \<noteq> Some Dir"
       "files s (projectPath @ [''.env.example'']) \<noteq> Some Dir"
       "\<not> fault_at E (ticks s)" "\<not> fault_at E (Suc (ticks s))"
    using that
    by (auto simp: createEnvFile_def path_join_env path_join_env_example seq_def and_then_def
        writeFile_def io_def writeFile_fs_def parent_is_dir_def Let_def
        split: option.splits node.splits)
  have shapes: "list_all (\<lambda>l. is_assignment l \<or> (is_comment_or_blank l \<and> redact_line l = l))
     (file_lines envContent)"
    using envContent_shapes
    by (auto simp: file_lines_envContent list_all_iff redact_line_def)
  have run': "files s projectPath = Some Dir \<and>
    files s (projectPath @ [''.env'']) \<noteq> Some Dir \<and>
    files s (projectPath @ [''.env.example'']) \<noteq> Some Dir \<and>
    \<not> fault_at E (ticks s) \<and> \<not> fault_at E (Suc (ticks s)) \<longrightarrow>
      createEnvFile E projectPath template s =
        (Inr (), s\<lparr>files := (files s)(projectPath @ [''.env''] \<mapsto> File envContent,
                                     projectPath @ [''.env.example''] \<mapsto> File (redact envContent)),
                   ticks := ticks s + 2\<rparr>)"
    using run by blast
  have lines: "file_lines (redact envContent) = map redact_line (file_lines envContent)"
    by (simp add: file_lines_envContent file_lines_redact_envContent)
  have asg: "\<forall>l. is_assignment l \<longrightarrow>
        redact_line l = key_of l @ ''='' \<and> is_assignment (redact_line l) \<and>
        key_of (redact_line l) = key_of l \<and> value_of (redact_line l) = []"
    using redact_line_assignment by blast
  have keys: "map key_of (filter is_assignment (file_lines (redact envContent))) =
     map key_of (filter is_assignment (file_lines envContent))"
    using same_keys [OF envContent_shapes]
    by (simp add: file_lines_envContent file_lines_redact_envContent)
  from run' lines shapes asg keys show ?thesis by blast
qed

lemma sample_createEnvFile_preconditions:
  "files home_with_project [''home'', ''my-dapp''] = Some Dir \<and>
   files home_with_project ([''home'', ''my-dapp''] @ [''.env'']) \<noteq> Some Dir \<and>
   files home_with_project ([''home'', ''my-dapp''] @ [''.env.example'']) \<noteq> Some Dir \<and>
   \<not> fault_at (sample_environment (\<lambda>n. False) failing_command) (ticks home_with_project) \<and>
   \<not> fault_at (sample_environment (\<lambda>n. False) failing_command) (Suc (ticks home_with_project))"
  by (simp add: home_with_project_def sample_environment_def)

theorem createEnvFile_redacted_witness:
  "createEnvFile (sample_environment (\<lambda>n. False) failing_command) [''home'', ''my-dapp'']
     ''hardhat-react'' home_with_project =
     (Inr (), home_with_project
        \<lparr>files := (files home_with_project)
            ([''home'', ''my-dapp'', ''.env''] \<mapsto> File envContent,
             [''home'', ''my-dapp'', ''.env.example''] \<mapsto> File (redact envContent)),
         ticks := 2\<rparr>) \<and>
   file_lines envContent ! 4 = ''PRIVATE_KEY=your_private_key_here'' \<and>
   file_lines (redact envContent) ! 4 = ''PRIVATE_KEY='' \<and>
   file_lines envContent ! 3 = ''# Private Keys (NEVER share these!)'' \<and>
   file_lines (redact envContent) ! 3 = ''# Private Keys (NEVER share these!)'' \<and>
   is_assignment ''PRIVATE_KEY=your_private_key_here'' \<and>
   redact_line ''PRIVATE_KEY=your_private_key_here'' = ''PRIVATE_KEY=''"
proof -
  note th = createEnvFile_redacted [where s = home_with_project and projectPath = "[''home'', ''my-dapp'']"
      and E = "sample_environment (\<lambda>n. False) failing_command" and template = "''hardhat-react''"]
  from th sample_createEnvFile_preconditions
  have run: "createEnvFile (sample_environment (\<lambda>n. False) failing_command) [''home'', ''my-dapp'']
     ''hardhat-react'' home_with_project =
     (Inr (), home_with_project
        \<lparr>files := (files home_with_project)
            ([''home'', ''my-dapp''] @ [''.env''] \<mapsto> File envContent,
             [''home'', ''my-dapp''] @ [''.env.example''] \<mapsto> File (redact envContent)),
         ticks := ticks home_with_project + 2\<rparr>)"
    by blast
  from th have lines: "file_lines (redact envContent) = map redact_line (file_lines envContent)"
    by blast
  have l4: "file_lines envContent ! 4 = ''PRIVATE_KEY=your_private_key_here''"
    and l3: "file_lines envContent ! 3 = ''# Private Keys (NEVER share these!)''"
    by (simp_all add: file_lines_envContent envContent_lines_def)
  have len: "4 < length (file_lines envContent)" "3 < length (file_lines envContent)"
    by (simp_all add: file_lines_envContent envContent_lines_def)
  from lines len l4 l3
  have r4: "file_lines (redact envContent) ! 4 = ''PRIVATE_KEY=''"
    and r3: "file_lines (redact envContent) ! 3 = ''# Private Keys (NEVER share these!)''"
    by (simp_all add: redact_line_def key_of_def)
  have asg: "is_assignment ''PRIVATE_KEY=your_private_key_here''"
    by (simp add: is_assignment_def key_of_def key_char_def is_upper_def is_lower_def is_digit_def
        code_def)
  from th asg have "redact_line ''PRIVATE_KEY=your_private_key_here'' =
      key_of ''PRIVATE_KEY=your_private_key_here'' @ ''=''"
    by blast
  then have red: "redact_line ''PRIVATE_KEY=your_private_key_here'' = ''PRIVATE_KEY=''"
    by (simp add: key_of_def)
  have t: "ticks home_with_project + 2 = 2" by (simp add: home_with_project_def)
  from run l4 l3 r4 r3 asg red show ?thesis unfolding t by simp
qed

text \<open>
  C6 (as stated) fails: the first line of the secrets file that \<open>createEnvFile\<close> writes is
  the comment \<open># Rootstock Configuration\<close>, which is not of the form \<open>KEY=value\<close>.
\<close>

theorem createEnvFile_every_line_counterexample:
  "files (snd (createEnvFile (sample_environment (\<lambda>n. False) failing_command)
      [''home'', ''my-dapp''] ''hardhat-react'' home_with_project)) [''home'', ''my-dapp'', ''.env'']
     = Some (File envContent) \<and>
   file_lines envContent ! 0 = ''# Rootstock Configuration'' \<and>
   \<not> is_assignment (file_lines envContent ! 0) \<and>
   \<not> list_all is_assignment (file_lines envContent)"
proof -
  have "files (snd (createEnvFile (sample_environment (\<lambda>n. False) failing_command)
      [''home'', ''my-dapp''] ''hardhat-react'' home_with_project)) [''home'', ''my-dapp'', ''.env'']
     = Some (File envContent)"
    by (simp add: createEnvFile_def path_join_env path_join_env_example seq_def and_then_def
        writeFile_def io_def writeFile_fs_def parent_is_dir_def Let_def home_with_project_def
        sample_environment_def)
  moreover have "file_lines envContent ! 0 = ''# Rootstock Configuration''"
    by (simp add: file_lines_envContent envContent_lines_def)
  moreover have "\<not> is_assignment ''# Rootstock Configuration''"
    by (simp add: is_assignment_def)
  moreover have "\<not> list_all is_assignment (file_lines envContent)"
    by (simp add: file_lines_envContent envContent_lines_def is_assignment_def)
  ultimately show ?thesis by simp
qed

section \<open>Properties of the deployment\<close>

subsection \<open>Framework detection\<close>



















subsection \<open>Address extraction and storage\<close>



























section \<open>Properties of the generated configuration\<close>

lemma seq_success:
  assumes "seq m n s = (Inr u, s')"
  obtains s1 where "m s = (Inr (), s1)" and "n s1 = (Inr u, s')"
  using assms by (auto simp: seq_def and_then_def split: prod.splits sum.splits)

lemma keeps_seq: "keeps q m \<Longrightarrow> keeps q n \<Longrightarrow> keeps q (seq m n)"
  unfolding keeps_def seq_def and_then_def
  by (auto split: prod.splits sum.splits) (metis snd_conv)+

lemma keeps_writeFile: "q \<noteq> p \<Longrightarrow> keeps q (writeFile E p c)"
  by (auto simp: keeps_def writeFile_def io_def writeFile_fs_def Let_def
      split: option.splits node.splits sum.splits)

lemma keeps_writeJson: "q \<noteq> p \<Longrightarrow> keeps q (writeJson E p c)"
  by (simp add: writeJson_def keeps_writeFile)

lemma writeFile_success: "writeFile E p c s = (Inr (), s') \<Longrightarrow> files s' p = Some (File c)"
  by (auto simp: writeFile_def io_def writeFile_fs_def Let_def
      split: option.splits node.splits sum.splits if_splits)

lemma keeps_apply: "keeps q m \<Longrightarrow> m s = (r, s') \<Longrightarrow> files s q = Some (File c) \<Longrightarrow> files s' q = Some (File c)"
  by (auto simp: keeps_def dest!: spec [of _ s])

lemma template_paths:
  "path_join p ''hardhat.config.js'' = p @ [''hardhat.config.js'']"
  "path_join p ''contracts/foundry.toml'' = p @ [''contracts'', ''foundry.toml'']"
  by (simp_all add: path_join_def path_step_def)

lemma hardhat_config_written:
  assumes "createHardhatReactTemplate E p s = (Inr (), s')"
  shows "files s' (p @ [''hardhat.config.js'']) = Some (File hardhatConfig)"
proof -
  let ?q = "p @ [''hardhat.config.js'']"
  let ?L = "hardhat_literals E"
  let ?rest = "seq (writeFile E (path_join p ''contracts/RootstockGreeter.sol'') (sampleContract ?L))
     (seq (writeFile E (path_join p ''scripts/deploy.js'') (deployScript ?L))
     (seq (writeFile E (path_join p ''test/RootstockGreeter.test.js'') (testFile ?L))
     (seq (writeJson E (path_join p ''frontend/package.json'') frontendPackageJson)
     (seq (writeFile E (path_join p ''frontend/vite.config.js'') (viteConfig ?L))
     (seq (writeFile E (path_join p ''frontend/index.html'') (indexHtml ?L))
     (seq (writeFile E (path_join p ''frontend/src/main.jsx'') (mainJsx ?L))
     (seq (writeFile E (path_join p ''frontend/src/App.jsx'') (appJsx ?L))
     (seq (writeFile E (path_join p ''frontend/src/App.css'') (appCss ?L))
          (writeFile E (path_join p ''frontend/src/index.css'') (indexCss ?L))))))))))"
  from assms obtain s1 where
    "seq (writeJson E (path_join p ''package.json'') hardhat_rootPackageJson)
       (seq (writeFile E (path_join p ''hardhat.config.js'') hardhatConfig) ?rest) s1 = (Inr (), s')"
    unfolding createHardhatReactTemplate_def Let_def by (rule seq_success)
  then obtain s2 where
    "seq (writeFile E (path_join p ''hardhat.config.js'') hardhatConfig) ?rest s2 = (Inr (), s')"
    by (rule seq_success)
  then obtain s3 where
    w: "writeFile E (path_join p ''hardhat.config.js'') hardhatConfig s2 = (Inr (), s3)"
    and r: "?rest s3 = (Inr (), s')"
    by (rule seq_success)
  from w have at3: "files s3 ?q = Some (File hardhatConfig)"
    by (auto simp: template_paths dest: writeFile_success)
  have "keeps ?q ?rest"
    by (intro keeps_seq keeps_writeFile keeps_writeJson)
       (simp_all add: path_join_def path_step_def)
  from keeps_apply [OF this r at3] show ?thesis .
qed

lemma foundry_config_written:
  assumes "createFoundryViteTemplate E p s = (Inr (), s')"
  shows "files s' (p @ [''contracts'', ''foundry.toml'']) = Some (File foundryToml)"
proof -
  let ?q = "p @ [''contracts'', ''foundry.toml'']"
  let ?L = "foundry_literals E"
  let ?rest = "seq (writeFile E (path_join p ''contracts/src/RootstockGreeter.sol'') (sampleContract ?L))
     (seq (writeFile E (path_join p ''contracts/script/Deploy.s.sol'') (deployScript ?L))
     (seq (writeFile E (path_join p ''contracts/test/RootstockGreeter.t.sol'') (testFile ?L))
     (seq (writeJson E (path_join p ''frontend/package.json'') frontendPackageJson)
     (seq (writeFile E (path_join p ''frontend/vite.config.js'') (viteConfig ?L))
     (seq (writeFile E (path_join p ''frontend/index.html'') (indexHtml ?L))
     (seq (writeFile E (path_join p ''frontend/src/main.jsx'') (mainJsx ?L))
     (seq (writeFile E (path_join p ''frontend/src/App.jsx'') (appJsx ?L))
     (seq (writeFile E (path_join p ''frontend/src/App.css'') (appCss ?L))
          (writeFile E (path_join p ''frontend/src/index.css'') (indexCss ?L))))))))))"
  from assms obtain s1 where
    "seq (writeJson E (path_join p ''package.json'') foundry_rootPackageJson)
       (seq (writeFile E (path_join p ''contracts/foundry.toml'') foundryToml) ?rest) s1 = (Inr (), s')"
    unfolding createFoundryViteTemplate_def Let_def by (rule seq_success)
  then obtain s2 where
    "seq (writeFile E (path_join p ''contracts/foundry.toml'') foundryToml) ?rest s2 = (Inr (), s')"
    by (rule seq_success)
  then obtain s3 where
    w: "writeFile E (path_join p ''contracts/foundry.toml'') foundryToml s2 = (Inr (), s3)"
    and r: "?rest s3 = (Inr (), s')"
    by (rule seq_success)
  from w have at3: "files s3 ?q = Some (File foundryToml)"
    by (auto simp: template_paths dest: writeFile_success)
  have "keeps ?q ?rest"
    by (intro keeps_seq keeps_writeFile keeps_writeJson)
       (simp_all add: path_join_def path_step_def)
  from keeps_apply [OF this r at3] show ?thesis .
qed

lemma hardhat_config_lines:
  \<open>file_lines hardhatConfig ! 18 = ''    rsktestnet: {'' \<and>
   file_lines hardhatConfig ! 19 =
     ''      url: process.env.RSK_TESTNET_RPC_URL || "'' @ rpcUrl testnet @ ''",'' \<and>
   file_lines hardhatConfig ! 24 = ''    rskmainnet: {'' \<and>
   file_lines hardhatConfig ! 25 =
     ''      url: process.env.RSK_MAINNET_RPC_URL || "'' @ rpcUrl mainnet @ ''",''\<close>
  by code_simp

lemma foundry_config_lines:
  \<open>file_lines foundryToml ! 8 = ''[rpc_endpoints]'' \<and>
   file_lines foundryToml ! 9 = ''rsktestnet = "${RSK_TESTNET_RPC_URL}"'' \<and>
   file_lines foundryToml ! 10 = ''rskmainnet = "${RSK_MAINNET_RPC_URL}"''\<close>
  by code_simp

lemma env_rpc_urls:
  "env_lookup ''RSK_TESTNET_RPC_URL'' envContent = Some (rpcUrl testnet) \<and>
   env_lookup ''RSK_MAINNET_RPC_URL'' envContent = Some (rpcUrl mainnet)"
  by code_simp

lemma registry_lookup:
  "getNetworkConfig ''testnet'' = Inr (Own testnet) \<and> getNetworkConfig ''mainnet'' = Inr (Own mainnet)"
  by (simp add: getNetworkConfig_def get_property_def ROOTSTOCK_NETWORKS_def)

text \<open>
  C9 (as the code has it). The registry answers \<open>testnet\<close> and \<open>mainnet\<close> with the two
  configurations. A successful Hardhat generation leaves \<open>hardhat.config.js\<close> with the
  text \<open>hardhatConfig\<close>, whose two network entries take the URL from the environment
  variables \<open>RSK_TESTNET_RPC_URL\<close> and \<open>RSK_MAINNET_RPC_URL\<close> and fall back to exactly
  the registry's \<open>rpcUrl\<close> of that network. A successful Foundry generation leaves
  \<open>contracts/foundry.toml\<close> with the text \<open>foundryToml\<close>, whose two endpoint entries
  are the references \<open>${RSK_TESTNET_RPC_URL}\<close> and \<open>${RSK_MAINNET_RPC_URL}\<close>; the
  secrets file of \<open>createEnvFile\<close> assigns to these two variables exactly the
  registry's \<open>rpcUrl\<close> of that network.
\<close>

theorem template_rpc_urls:
  \<open>getNetworkConfig ''testnet'' = Inr (Own testnet) \<and>
   getNetworkConfig ''mainnet'' = Inr (Own mainnet) \<and>
   (createHardhatReactTemplate E p s = (Inr (), s') \<longrightarrow>
      files s' (p @ [''hardhat.config.js'']) = Some (File hardhatConfig)) \<and>
   (createFoundryViteTemplate E p s = (Inr (), s') \<longrightarrow>
      files s' (p @ [''contracts'', ''foundry.toml'']) = Some (File foundryToml)) \<and>
   file_lines hardhatConfig ! 18 = ''    rsktestnet: {'' \<and>
   file_lines hardhatConfig ! 19 =
     ''      url: process.env.RSK_TESTNET_RPC_URL || "'' @ rpcUrl testnet @ ''",'' \<and>
   file_lines hardhatConfig ! 24 = ''    rskmainnet: {'' \<and>
   file_lines hardhatConfig ! 25 =
     ''      url: process.env.RSK_MAINNET_RPC_URL || "'' @ rpcUrl mainnet @ ''",'' \<and>
   file_lines foundryToml ! 8 = ''[rpc_endpoints]'' \<and>
   file_lines foundryToml ! 9 = ''rsktestnet = "${RSK_TESTNET_RPC_URL}"'' \<and>
   file_lines foundryToml ! 10 = ''rskmainnet = "${RSK_MAINNET_RPC_URL}"'' \<and>
   env_lookup ''RSK_TESTNET_RPC_URL'' envContent = Some (rpcUrl testnet) \<and>
   env_lookup ''RSK_MAINNET_RPC_URL'' envContent = Some (rpcUrl mainnet)\<close>
  using registry_lookup hardhat_config_lines foundry_config_lines env_rpc_urls
    hardhat_config_written [of E p s s'] foundry_config_written [of E p s s']
  by blast

lemma sample_templates_succeed:
  "fst (createHardhatReactTemplate (sample_environment (\<lambda>n. False) failing_command)
         [''home'', ''my-dapp''] home_with_project) = Inr () \<and>
   fst (createFoundryViteTemplate (sample_environment (\<lambda>n. False) failing_command)
         [''home'', ''my-dapp''] home_with_project) = Inr ()"
  by code_simp

theorem template_rpc_urls_witness:
  "files (snd (createHardhatReactTemplate (sample_environment (\<lambda>n. False) failing_command)
         [''home'', ''my-dapp''] home_with_project)) [''home'', ''my-dapp'', ''hardhat.config.js'']
     = Some (File hardhatConfig) \<and>
   files (snd (createFoundryViteTemplate (sample_environment (\<lambda>n. False) failing_command)
         [''home'', ''my-dapp''] home_with_project)) [''home'', ''my-dapp'', ''contracts'', ''foundry.toml'']
     = Some (File foundryToml)"
proof -
  let ?E = "sample_environment (\<lambda>n. False) failing_command"
  let ?p = "[''home'', ''my-dapp'']"
  have h: "createHardhatReactTemplate ?E ?p home_with_project =
      (Inr (), snd (createHardhatReactTemplate ?E ?p home_with_project))"
    using sample_templates_succeed
    by (cases "createHardhatReactTemplate ?E ?p home_with_project") simp
  have f: "createFoundryViteTemplate ?E ?p home_with_project =
      (Inr (), snd (createFoundryViteTemplate ?E ?p home_with_project))"
    using sample_templates_succeed
    by (cases "createFoundryViteTemplate ?E ?p home_with_project") simp
  from template_rpc_urls [of ?E ?p home_with_project
      "snd (createHardhatReactTemplate ?E ?p home_with_project)"] h
  have a: "files (snd (createHardhatReactTemplate ?E ?p home_with_project)) (?p @ [''hardhat.config.js''])
      = Some (File hardhatConfig)"
    by blast
  from template_rpc_urls [of ?E ?p home_with_project
      "snd (createFoundryViteTemplate ?E ?p home_with_project)"] f
  have b: "files (snd (createFoundryViteTemplate ?E ?p home_with_project))
      (?p @ [''contracts'', ''foundry.toml'']) = Some (File foundryToml)"
    by blast
  from a b show ?thesis by simp
qed

text \<open>
  C9 (as stated) fails for the Foundry template: the configuration file it produces
  holds neither of the registry's URLs (it holds no URL at all).
\<close>

theorem foundry_config_literal_counterexample:
  "fst (createFoundryViteTemplate (sample_environment (\<lambda>n. False) failing_command)
         [''home'', ''my-dapp''] home_with_project) = Inr () \<and>
   files (snd (createFoundryViteTemplate (sample_environment (\<lambda>n. False) failing_command)
         [''home'', ''my-dapp''] home_with_project)) [''home'', ''my-dapp'', ''contracts'', ''foundry.toml'']
     = Some (File foundryToml) \<and>
   \<not> str_includes foundryToml (rpcUrl testnet) \<and>
   \<not> str_includes foundryToml (rpcUrl mainnet) \<and>
   \<not> str_includes foundryToml ''http''"
  by code_simp

end
